theory Spec2Isabelle
  imports Complex_Main
begin

section \<open>The DCF valuation engine of IAS.py\<close>

text \<open>
  The values of Python floats are modelled as real numbers, and the inputs are finite
  floats. The rounding of a value is not modelled in the engine; what is modelled is
  every way in which its float operations raise or take another path: an index out of
  range (\<open>IndexError\<close>), a division by zero (\<open>ZeroDivisionError\<close>), a power \<open>**\<close> whose
  result is too large for a float (\<open>OverflowError\<close>), and the product \<open>market_cap\<close>, a
  divisor, which is \<open>0.0\<close> as soon as the exact product is too small for a float.
\<close>

datatype error = IndexError | ZeroDivisionError | OverflowError

text \<open>The dictionary \<open>user_inputs\<close> read by \<open>calculate_dcf\<close>, one field per key.\<close>

record user_inputs =
  tax_rate :: real
  long_term_growth_rate :: real
  wacc :: real
  share_price :: real
  shares_outstanding :: real
  cash :: real
  debt :: real
  ebit :: "real list"
  da :: "real list"
  capex :: "real list"
  changes_in_nwc :: "real list"

text \<open>The dictionary returned by \<open>calculate_dcf\<close>.\<close>

record dcf_results =
  fcf :: "real list"
  terminal_value :: real
  present_values :: "real list"
  present_terminal_value :: real
  enterprise_value :: real
  equity_value :: real
  intrinsic_value_per_share :: real
  market_cap :: real
  intrinsic_value_premium :: real
  intrinsic_value_premium_percentage :: real

text \<open>Sequencing of steps that may raise: the first error ends the computation.\<close>

definition and_then :: "error + 'a \<Rightarrow> ('a \<Rightarrow> error + 'b) \<Rightarrow> error + 'b" where
  "and_then m f = (case m of Inl e \<Rightarrow> Inl e | Inr v \<Rightarrow> f v)"

text \<open>\<open>xs[i]\<close>: a negative index counts from the end, an index out of range raises.\<close>

definition getitem :: "'a list \<Rightarrow> int \<Rightarrow> error + 'a" where
  "getitem xs i =
     (let j = (if i < 0 then i + int (length xs) else i)
      in if 0 \<le> j \<and> j < int (length xs) then Inr (xs ! nat j) else Inl IndexError)"

text \<open>\<open>x / y\<close> on floats: a zero divisor raises.\<close>

definition truediv :: "real \<Rightarrow> real \<Rightarrow> error + real" where
  "truediv x y = (if y = 0 then Inl ZeroDivisionError else Inr (x / y))"

text \<open>
  \<open>x ** n\<close> on a float \<open>x\<close> and a positive integer \<open>n\<close>: Python raises \<open>OverflowError\<close>
  when the result is too large for a float. Under rounding to nearest that is from
  \<open>2 ^ 1024 - 2 ^ 970\<close> on, half a unit in the last place above the largest float. A
  result too small for a float is \<open>0.0\<close> and raises nothing; the code takes powers of
  \<open>1 + wacc\<close> only, which is zero or at least \<open>2 ^ -53\<close> in magnitude for a float
  \<open>wacc\<close>, so its powers up to the fifth are zero only when \<open>wacc\<close> is \<open>-1\<close>.
\<close>

definition overflow_threshold :: real where
  "overflow_threshold = 2 ^ 1024 - 2 ^ 970"

definition pow_py :: "real \<Rightarrow> nat \<Rightarrow> error + real" where
  "pow_py x n = (if overflow_threshold \<le> \<bar>x ^ n\<bar> then Inl OverflowError else Inr (x ^ n))"

text \<open>
  \<open>x * y\<close> on floats, as far as it decides a later division by the product: the float
  product is \<open>0.0\<close> exactly when the exact product is at most \<open>2 ^ -1075\<close> in
  magnitude, half of the smallest positive float.
\<close>

definition mul_py :: "real \<Rightarrow> real \<Rightarrow> real" where
  "mul_py x y = (if \<bar>x * y\<bar> \<le> 1 / 2 ^ 1075 then 0 else x * y)"

text \<open>\<open>sum(xs)\<close>: starts from 0 and adds from the left.\<close>

definition sum_py :: "real list \<Rightarrow> real" where
  "sum_py xs = foldl (+) 0 xs"

text \<open>
  The first loop of \<open>calculate_dcf\<close> (lines 34 to 37), over the indices it is given;
  \<open>acc\<close> is the list \<open>fcf\<close> built so far.
\<close>

fun fcf_loop :: "user_inputs \<Rightarrow> nat list \<Rightarrow> real list \<Rightarrow> error + real list" where
  "fcf_loop u [] acc = Inr acc"
| "fcf_loop u (i # rest) acc =
     and_then (getitem (ebit u) (int i)) (\<lambda>ebit_i.
       let tax_on_ebit = ebit_i * tax_rate u * (- 1) in
       and_then (getitem (da u) (int i)) (\<lambda>da_i.
       and_then (getitem (capex u) (int i)) (\<lambda>capex_i.
       and_then (getitem (changes_in_nwc u) (int i)) (\<lambda>nwc_i.
         fcf_loop u rest (acc @ [ebit_i + tax_on_ebit + da_i + capex_i + nwc_i])))))"

text \<open>
  The second loop (lines 43 to 46): the discount factor is computed first, the power
  before the division, then \<open>fcf[i]\<close> is read and multiplied by the factor.
\<close>

fun pv_loop :: "user_inputs \<Rightarrow> real list \<Rightarrow> nat list \<Rightarrow> real list \<Rightarrow> error + real list" where
  "pv_loop u fcf' [] acc = Inr acc"
| "pv_loop u fcf' (i # rest) acc =
     and_then (pow_py (1 + wacc u) (i + 1)) (\<lambda>power.
     and_then (truediv 1 power) (\<lambda>discount_factor.
     and_then (getitem fcf' (int i)) (\<lambda>fcf_i.
       pv_loop u fcf' rest (acc @ [fcf_i * discount_factor]))))"

text \<open>\<open>calculate_dcf\<close>, lines 17 to 79, statement by statement.\<close>

definition calculate_dcf :: "user_inputs \<Rightarrow> error + dcf_results" where
  "calculate_dcf u =
     and_then (fcf_loop u [0..<5] []) (\<lambda>fcf'.
     and_then (getitem fcf' (- 1)) (\<lambda>fcf_last.
     and_then (truediv (fcf_last * (1 + long_term_growth_rate u))
                 (wacc u - long_term_growth_rate u)) (\<lambda>terminal_value'.
     and_then (pv_loop u fcf' [0..<5] []) (\<lambda>present_values'.
     and_then (pow_py (1 + wacc u) 5) (\<lambda>power.
     and_then (truediv 1 power) (\<lambda>discount_factor_terminal.
       let present_terminal_value' = terminal_value' * discount_factor_terminal;
           enterprise_value' = sum_py present_values' + present_terminal_value';
           equity_value' = enterprise_value' + cash u - debt u
       in
     and_then (truediv equity_value' (shares_outstanding u)) (\<lambda>intrinsic_value_per_share'.
       let market_cap' = mul_py (share_price u) (shares_outstanding u);
           intrinsic_value_premium' = equity_value' - market_cap'
       in
     and_then (truediv intrinsic_value_premium' market_cap') (\<lambda>intrinsic_value_premium_percentage'.
       Inr \<lparr>fcf = fcf',
            terminal_value = terminal_value',
            present_values = present_values',
            present_terminal_value = present_terminal_value',
            enterprise_value = enterprise_value',
            equity_value = equity_value',
            intrinsic_value_per_share = intrinsic_value_per_share',
            market_cap = market_cap',
            intrinsic_value_premium = intrinsic_value_premium',
            intrinsic_value_premium_percentage = intrinsic_value_premium_percentage'\<rparr>))))))))"

section \<open>The worksheet written by \<open>generate_spreadsheet\<close>\<close>

text \<open>
  The workbook is modelled by its logical content: the values of the cells, the number
  format of each cell and the charts of the sheet. Column widths, fonts, fills and
  borders are not modelled, and neither is the encoding of the file. A cell value is
  what the source writes: nothing, a string, an integer or a float.
\<close>

datatype pyval = PyNone | PyStr string | PyInt int | PyFloat real

record cell =
  cell_value :: pyval
  number_format :: string

text \<open>A \<open>Reference\<close> of the charting library: a rectangle of cells, bounds included.\<close>

record reference =
  min_col :: nat
  min_row :: nat
  max_col :: nat
  max_row :: nat

record line_chart =
  chart_title :: string
  y_axis_title :: string
  x_axis_title :: string
  chart_data :: reference
  titles_from_data :: bool
  categories :: reference
  anchor :: string

text \<open>
  Row \<open>r\<close> of the sheet (counted from 1) is \<open>sheet_rows ws ! (r - 1)\<close>, and its cell in
  column \<open>c\<close> (counted from 1) is the element \<open>c - 1\<close> of that row.
\<close>

record worksheet =
  title :: string
  sheet_rows :: "cell list list"
  charts :: "line_chart list"

definition new_cell :: "pyval \<Rightarrow> cell" where
  "new_cell v = \<lparr>cell_value = v, number_format = ''General''\<rparr>"

definition new_worksheet :: worksheet where
  "new_worksheet = \<lparr>title = ''Sheet'', sheet_rows = [], charts = []\<rparr>"

text \<open>\<open>ws.append(values)\<close> writes the next row; an empty list still takes a row.\<close>

definition ws_append :: "worksheet \<Rightarrow> pyval list \<Rightarrow> worksheet" where
  "ws_append ws vs = ws\<lparr>sheet_rows := sheet_rows ws @ [map new_cell vs]\<rparr>"

text \<open>\<open>ws.max_row\<close>: the last row that holds a cell (1 on an empty sheet), read from the
  rows in reverse order.\<close>

fun last_used_row :: "cell list list \<Rightarrow> nat" where
  "last_used_row [] = 1"
| "last_used_row (r # rs) = (if r \<noteq> [] then Suc (length rs) else last_used_row rs)"

definition ws_max_row :: "worksheet \<Rightarrow> nat" where
  "ws_max_row ws = last_used_row (rev (sheet_rows ws))"

text \<open>The cell at row \<open>r\<close>, column \<open>c\<close>; a cell never written is empty, format General.\<close>

definition cell_at :: "worksheet \<Rightarrow> nat \<Rightarrow> nat \<Rightarrow> cell" where
  "cell_at ws r c =
     (if 1 \<le> r \<and> r \<le> length (sheet_rows ws) \<and> 1 \<le> c \<and> c \<le> length (sheet_rows ws ! (r - 1))
      then sheet_rows ws ! (r - 1) ! (c - 1) else new_cell PyNone)"

text \<open>\<open>isinstance(cell.value, (int, float))\<close>\<close>

definition is_number :: "pyval \<Rightarrow> bool" where
  "is_number v = (case v of PyInt n \<Rightarrow> True | PyFloat x \<Rightarrow> True | _ \<Rightarrow> False)"

text \<open>The two number formats of \<open>apply_formatting\<close>; the first one holds the dollar sign
  between double quotes (character 0x22).\<close>

definition currency_format :: string where
  "currency_format = [CHR 0x22, CHR ''$'', CHR 0x22] @ ''#,##0.00''"

definition percentage_format :: string where
  "percentage_format = ''0.00%''"

definition set_format_if_number :: "string \<Rightarrow> cell \<Rightarrow> cell" where
  "set_format_if_number fmt c = (if is_number (cell_value c) then c\<lparr>number_format := fmt\<rparr> else c)"

text \<open>
  The loop over \<open>ws.iter_rows(min_row=lo, max_row=hi, max_col=maxc)\<close> that gives every
  numeric cell of the range the format \<open>fmt\<close> (lines 102 to 105).
\<close>

definition format_range :: "string \<Rightarrow> nat \<Rightarrow> nat \<Rightarrow> nat \<Rightarrow> worksheet \<Rightarrow> worksheet" where
  "format_range fmt lo hi maxc ws =
     ws\<lparr>sheet_rows :=
        map (\<lambda>(r, row). if lo \<le> r \<and> r \<le> hi
               then map (\<lambda>(c, x). if c \<le> maxc then set_format_if_number fmt x else x) (enumerate 1 row)
               else row)
          (enumerate 1 (sheet_rows ws))\<rparr>"

text \<open>A cell reference such as \<open>B5\<close>: one column letter, then the row in decimal. The
  result is the pair (row, column).\<close>

fun digit_value :: "char \<Rightarrow> nat" where
  "digit_value c = of_char c - 48"

definition coordinate :: "string \<Rightarrow> nat \<times> nat" where
  "coordinate s = (case s of [] \<Rightarrow> (0, 0)
     | c # ds \<Rightarrow> (foldl (\<lambda>n d. 10 * n + digit_value d) 0 ds, of_char c - 64))"

text \<open>One round of the loop over \<open>percentage_cells\<close> (lines 109 to 112).\<close>

definition format_ref :: "string \<Rightarrow> string \<Rightarrow> worksheet \<Rightarrow> worksheet" where
  "format_ref fmt cell_ref ws =
     (case coordinate cell_ref of (r, c) \<Rightarrow>
        if 1 \<le> r \<and> r \<le> length (sheet_rows ws) \<and> 1 \<le> c \<and> c \<le> length (sheet_rows ws ! (r - 1))
        then ws\<lparr>sheet_rows := (sheet_rows ws)[r - 1 :=
               (sheet_rows ws ! (r - 1))[c - 1 := set_format_if_number fmt (sheet_rows ws ! (r - 1) ! (c - 1))]]\<rparr>
        else ws)"

definition percentage_cells :: "string list" where
  "percentage_cells = [''B5'', ''B6'', ''B7'']"

text \<open>\<open>apply_formatting\<close>: the currency format first, then the percentage cells.\<close>

definition apply_formatting :: "worksheet \<Rightarrow> worksheet" where
  "apply_formatting ws =
     fold (format_ref percentage_format) percentage_cells
       (format_range currency_format 5 (ws_max_row ws) 12 ws)"

text \<open>\<open>add_charts\<close>, lines 122 to 136.\<close>

definition add_charts :: "worksheet \<Rightarrow> dcf_results \<Rightarrow> worksheet" where
  "add_charts ws r =
     ws\<lparr>charts := charts ws @
       [\<lparr>chart_title = ''Unlevered Free Cash Flow (UFCF)'',
         y_axis_title = ''Cash Flow ($)'',
         x_axis_title = ''Year'',
         chart_data = \<lparr>min_col = 6, min_row = 13, max_col = 10, max_row = 13\<rparr>,
         titles_from_data = True,
         categories = \<lparr>min_col = 5, min_row = 12, max_col = 10, max_row = 12\<rparr>,
         anchor = ''A30''\<rparr>]\<rparr>"

text \<open>The list comprehension of line 171, \<open>[1 / (1 + wacc) ** (i + 1) for i in range(5)]\<close>.\<close>

fun discount_factors :: "user_inputs \<Rightarrow> nat list \<Rightarrow> error + real list" where
  "discount_factors u [] = Inr []"
| "discount_factors u (i # rest) =
     and_then (pow_py (1 + wacc u) (i + 1)) (\<lambda>power.
     and_then (truediv 1 power) (\<lambda>d.
     and_then (discount_factors u rest) (\<lambda>ds. Inr (d # ds))))"

text \<open>
  \<open>generate_spreadsheet\<close>, lines 139 to 193: the 37 rows in the order they are appended,
  then \<open>apply_formatting\<close>. The discount factors of row 24 are the only step that can
  raise. The function does not call \<open>add_charts\<close>.
\<close>

definition generate_spreadsheet :: "user_inputs \<Rightarrow> dcf_results \<Rightarrow> string \<Rightarrow> error + worksheet" where
  "generate_spreadsheet u r company_name =
     and_then (discount_factors u [0..<5]) (\<lambda>dfs.
       Inr (apply_formatting (foldl ws_append (new_worksheet\<lparr>title := ''DCF Model''\<rparr>)
         [[PyStr (''DCF Model for '' @ company_name)],
          [PyStr ''All figures in millions unless otherwise stated''],
          [],
          [PyStr '''', PyStr ''Hist.'', PyStr ''Proj.'', PyStr ''Proj.'', PyStr ''Proj.'', PyStr ''Proj.'',
           PyStr ''Proj.''],
          [PyStr '''', PyStr ''Period 0'', PyStr ''Period 1'', PyStr ''Period 2'', PyStr ''Period 3'',
           PyStr ''Period 4'', PyStr ''Period 5''],
          [],
          [PyStr ''Discounted Cash Flow''],
          [PyStr '''', PyStr ''Tax rate'', PyFloat (tax_rate u)],
          [PyStr '''', PyStr ''Long term growth rate'', PyFloat (long_term_growth_rate u)],
          [PyStr '''', PyStr ''WACC'', PyFloat (wacc u)],
          [PyStr '''', PyStr ''Share price'', PyFloat (share_price u)],
          [PyStr '''', PyStr ''Shares outstanding'', PyFloat (shares_outstanding u)],
          [],
          [PyStr '''', PyStr ''Year count'', PyStr '''', PyInt 1, PyInt 2, PyInt 3, PyInt 4, PyInt 5],
          [PyStr '''', PyStr ''EBIT'', PyStr ''''] @ map PyFloat (ebit u),
          [PyStr '''', PyStr ''Tax on EBIT'', PyStr ''''] @
             map PyFloat (map (\<lambda>e. e * tax_rate u * (- 1)) (ebit u)),
          [PyStr '''', PyStr ''+ Depreciation and amortization'', PyStr ''''] @ map PyFloat (da u),
          [PyStr '''', PyStr ''- Capital expenditure'', PyStr ''''] @ map PyFloat (capex u),
          [PyStr '''', PyStr ''Change in operating working capital'', PyStr ''''] @
             map PyFloat (changes_in_nwc u),
          [PyStr '''', PyStr ''Free cash flow'', PyStr ''''] @ map PyFloat (fcf r),
          [],
          [PyStr '''', PyStr ''Terminal value'', PyStr '''', PyStr '''', PyStr '''', PyStr '''', PyStr '''',
           PyFloat (terminal_value r)],
          [],
          [PyStr '''', PyStr ''Discount factor'', PyStr ''''] @ map PyFloat dfs,
          [PyStr '''', PyStr ''Present value of free cash flows'', PyStr ''''] @
             map PyFloat (present_values r),
          [],
          [PyStr '''', PyStr ''Sum of present value of free cash flows'',
           PyFloat (sum_py (present_values r))],
          [PyStr '''', PyStr ''Present value of terminal value'', PyFloat (present_terminal_value r)],
          [PyStr '''', PyStr ''Enterprise value'', PyFloat (enterprise_value r)],
          [],
          [PyStr '''', PyStr ''+ Cash'', PyFloat (cash u)],
          [PyStr '''', PyStr ''- Debt'', PyFloat (debt u)],
          [PyStr '''', PyStr ''Implied equity value (intrinsic value)'', PyFloat (equity_value r)],
          [],
          [PyStr '''', PyStr ''Market capitalization'', PyFloat (market_cap r)],
          [PyStr '''', PyStr ''Intrinsic value premium to market capitalization'',
           PyFloat (intrinsic_value_premium r)],
          [PyStr '''', PyStr ''Intrinsic value premium percentage'',
           PyFloat (intrinsic_value_premium_percentage r)]])))"

section \<open>The tables written by \<open>generate_pdf\<close>\<close>

text \<open>
  Python's fixed-point format of a float, on real numbers: the value is rounded to \<open>p\<close>
  decimals (a tie goes to the even digit), a negative value keeps its sign, and the
  option \<open>,\<close> groups the digits before the point in threes.
\<close>

definition round_half_even :: "real \<Rightarrow> nat" where
  "round_half_even x =
     (let n = nat \<lfloor>x\<rfloor>; d = x - real n
      in if d < 1 / 2 then n else if 1 / 2 < d then n + 1 else if even n then n else n + 1)"

text \<open>
  Rounding of a real number to the nearest float (a double: 53 significant bits, a tie
  goes to the even one, exponents from \<open>-1022\<close> on, below which the spacing stays
  \<open>2 ^ -1074\<close>). \<open>binade x\<close> is the exponent \<open>e\<close> with \<open>2 ^ e \<le> x < 2 ^ (e + 1)\<close> of a
  positive \<open>x\<close>. Overflow to infinity is not modelled.
\<close>

function binade :: "real \<Rightarrow> int" where
  "binade x = (if 2 \<le> x then binade (x / 2) + 1
               else if 0 < x \<and> x < 1 then binade (2 * x) - 1 else 0)"
  by pat_completeness auto
termination
proof (relation "measure (\<lambda>x. if 1 \<le> x then nat \<lfloor>log 2 x\<rfloor> else nat \<lceil>- log 2 x\<rceil>)")
  show "wf (measure (\<lambda>x::real. if 1 \<le> x then nat \<lfloor>log 2 x\<rfloor> else nat \<lceil>- log 2 x\<rceil>))"
    by simp
next
  fix x :: real
  assume x: "2 \<le> x"
  then have "log 2 (x / 2) = log 2 x - 1" by (simp add: log_divide)
  moreover from x have "1 \<le> log 2 x" by (simp add: le_log_iff)
  then have "1 \<le> \<lfloor>log 2 x\<rfloor>" by linarith
  ultimately show "(x / 2, x) \<in> measure (\<lambda>x. if 1 \<le> x then nat \<lfloor>log 2 x\<rfloor> else nat \<lceil>- log 2 x\<rceil>)"
    using x by simp
next
  fix x :: real
  assume "\<not> 2 \<le> x" and x: "0 < x \<and> x < 1"
  then have l: "log 2 (2 * x) = 1 + log 2 x" by (simp add: log_mult)
  from x have neg: "log 2 x < 0" by simp
  then have c: "1 \<le> \<lceil>- log 2 x\<rceil>" by linarith
  show "(2 * x, x) \<in> measure (\<lambda>x. if 1 \<le> x then nat \<lfloor>log 2 x\<rfloor> else nat \<lceil>- log 2 x\<rceil>)"
  proof (cases "1 \<le> 2 * x")
    case True
    with x have "0 \<le> log 2 (2 * x)" by simp
    moreover from x have "log 2 (2 * x) < 1" using l neg by linarith
    ultimately have "\<lfloor>log 2 (2 * x)\<rfloor> = 0" by linarith
    with True x c show ?thesis by simp
  next
    case False
    have "\<lceil>- log 2 (2 * x)\<rceil> = \<lceil>- log 2 x\<rceil> - 1" unfolding l by linarith
    with False x c show ?thesis by simp
  qed
qed

definition pow2 :: "int \<Rightarrow> real" where
  "pow2 k = (if 0 \<le> k then 2 ^ nat k else 1 / 2 ^ nat (- k))"

definition fl :: "real \<Rightarrow> real" where
  "fl x =
     (if x = 0 then 0
      else let q = pow2 (max (binade \<bar>x\<bar>) (- 1022) - 52)
           in sgn x * real (round_half_even (\<bar>x\<bar> / q)) * q)"

definition digit_char :: "nat \<Rightarrow> char" where
  "digit_char d = ''0123456789'' ! d"

function digits :: "nat \<Rightarrow> string" where
  "digits n = (if n < 10 then [digit_char n] else digits (n div 10) @ [digit_char (n mod 10)])"
  by pat_completeness auto
termination
  by (relation "measure (\<lambda>n. n)") auto

fun group3 :: "string \<Rightarrow> string" where
  "group3 (a # b # c # d # rest) = a # b # c # CHR '','' # group3 (d # rest)"
| "group3 s = s"

definition thousands :: "string \<Rightarrow> string" where
  "thousands s = rev (group3 (rev s))"

text \<open>\<open>format_f False p x\<close> is \<open>f"{x:.pf}"\<close> and \<open>format_f True p x\<close> is \<open>f"{x:,.pf}"\<close>.\<close>

definition format_f :: "bool \<Rightarrow> nat \<Rightarrow> real \<Rightarrow> string" where
  "format_f grouped p x =
     (let n = round_half_even (\<bar>x\<bar> * 10 ^ p);
          whole = digits (n div 10 ^ p);
          frac = digits (n mod 10 ^ p)
      in (if x < 0 then ''-'' else '''') @
         (if grouped then thousands whole else whole) @
         (if p = 0 then '''' else ''.'' @ replicate (p - length frac) CHR ''0'' @ frac))"

text \<open>\<open>format_percent p x\<close> is \<open>f"{x:.p%}"\<close>: the float product of the value and 100 in
  the fixed-point format, then the percent sign.\<close>

definition format_percent :: "nat \<Rightarrow> real \<Rightarrow> string" where
  "format_percent p x = format_f False p (fl (x * 100)) @ ''%''"

text \<open>The report: its title, the two tables as rows of strings, and the footer.\<close>

record pdf_report =
  report_title :: string
  assumptions_data :: "string list list"
  results_data :: "string list list"
  footer :: string

definition generate_pdf :: "user_inputs \<Rightarrow> dcf_results \<Rightarrow> string \<Rightarrow> pdf_report" where
  "generate_pdf u r company_name =
     \<lparr>report_title = ''DCF Analysis Report for '' @ company_name,
      assumptions_data =
        [[''Key Assumptions'', ''Value''],
         [''Tax Rate'', format_percent 1 (tax_rate u)],
         [''WACC'', format_percent 1 (wacc u)],
         [''Long Term Growth Rate'', format_percent 1 (long_term_growth_rate u)],
         [''Share Price'', ''$'' @ format_f False 2 (share_price u)],
         [''Shares Outstanding'', format_f True 0 (shares_outstanding u)]],
      results_data =
        [[''DCF Results'', ''Value''],
         [''Enterprise Value'', ''$'' @ format_f True 2 (enterprise_value r)],
         [''Equity Value'', ''$'' @ format_f True 2 (equity_value r)],
         [''Intrinsic Value per Share'', ''$'' @ format_f True 2 (intrinsic_value_per_share r)],
         [''Market Cap'', ''$'' @ format_f True 2 (market_cap r)],
         [''Intrinsic Value Premium'', ''$'' @ format_f True 2 (intrinsic_value_premium r)],
         [''Premium Percentage'', format_percent 1 (intrinsic_value_premium_percentage r)]],
      footer = ''Disclaimer: This report is for educational purposes only.''\<rparr>"

section \<open>The inputs the form of \<open>main\<close> starts with\<close>

text \<open>The default values of the input fields, lines 316 to 369.\<close>

definition default_company_name :: string where
  "default_company_name = ''Example Company''"

definition default_inputs :: user_inputs where
  "default_inputs =
     \<lparr>tax_rate = 21 / 100, long_term_growth_rate = 3 / 100, wacc = 8 / 100,
      share_price = 3, shares_outstanding = 1000, cash = 1242 / 10, debt = 500,
      ebit = [270, 0, 0, 0, 0], da = [20, 0, 0, 0, 0], capex = [- 30, 0, 0, 0, 0],
      changes_in_nwc = [- 28 / 10, 0, 0, 0, 0]\<rparr>"

text \<open>What \<open>calculate_dcf\<close> returns on them (lemma \<open>calculate_dcf_default\<close> below).\<close>

definition default_results :: dcf_results where
  "default_results =
     \<lparr>fcf = [401 / 2, 0, 0, 0, 0], terminal_value = 0,
      present_values = [10025 / 54, 0, 0, 0, 0], present_terminal_value = 0,
      enterprise_value = 10025 / 54, equity_value = - 51341 / 270,
      intrinsic_value_per_share = - 51341 / 270000, market_cap = 3000,
      intrinsic_value_premium = - 861341 / 270,
      intrinsic_value_premium_percentage = - 861341 / 810000\<rparr>"

text \<open>Inputs with five different periods, and what \<open>calculate_dcf\<close> returns on them
  (lemma \<open>calculate_dcf_sample\<close> below).\<close>

definition sample_inputs :: user_inputs where
  "sample_inputs =
     \<lparr>tax_rate = 1 / 4, long_term_growth_rate = 1 / 20, wacc = 1 / 4,
      share_price = 2, shares_outstanding = 40, cash = 50, debt = 100,
      ebit = [100, 200, 300, 400, 820], da = [10, 20, 30, 40, 50],
      capex = [- 4, - 8, - 12, - 16, - 20], changes_in_nwc = [- 1, - 2, - 3, - 4, - 5]\<rparr>"

definition sample_results :: dcf_results where
  "sample_results =
     \<lparr>fcf = [80, 160, 240, 320, 640], terminal_value = 3360,
      present_values = [64, 512 / 5, 3072 / 25, 16384 / 125, 131072 / 625],
      present_terminal_value = 688128 / 625,
      enterprise_value = 216384 / 125, equity_value = 210134 / 125,
      intrinsic_value_per_share = 105067 / 2500, market_cap = 80,
      intrinsic_value_premium = 200134 / 125,
      intrinsic_value_premium_percentage = 100067 / 5000\<rparr>"

section \<open>Lines 36 to 46 in double arithmetic\<close>

text \<open>
  The statements of the two loops with every operation rounded to a float, as Python
  computes them on float inputs: \<open>tax_on_ebit = ebit[i] * tax_rate * -1\<close> and the sum
  appended to \<open>fcf\<close>, added from the left; then
  \<open>discount_factor = 1 / (1 + wacc) ** (i + 1)\<close> and the product
  \<open>fcf[i] * discount_factor\<close> appended to \<open>present_values\<close>. Next to it the quotient
  \<open>fcf[i] / (1 + wacc) ** (i + 1)\<close>, computed the same way.
\<close>

definition fcf_double :: "user_inputs \<Rightarrow> nat \<Rightarrow> real" where
  "fcf_double u i =
     (let tax_on_ebit = fl (fl (ebit u ! i * tax_rate u) * (- 1))
      in fl (fl (fl (fl (ebit u ! i + tax_on_ebit) + da u ! i) + capex u ! i) +
             changes_in_nwc u ! i))"

definition present_value_double :: "user_inputs \<Rightarrow> nat \<Rightarrow> real" where
  "present_value_double u i =
     (let discount_factor = fl (1 / fl (fl (1 + wacc u) ^ (i + 1)))
      in fl (fcf_double u i * discount_factor))"

definition quotient_double :: "user_inputs \<Rightarrow> nat \<Rightarrow> real" where
  "quotient_double u i = fl (fcf_double u i / fl (fl (1 + wacc u) ^ (i + 1)))"

text \<open>
  Float inputs on which the two differ: no tax, an \<open>ebit\<close> of \<open>10.0\<close> in the first
  period and nothing else in the projections, and for \<open>wacc\<close> the float \<open>0.08\<close>.
\<close>

definition rounding_inputs :: user_inputs where
  "rounding_inputs =
     \<lparr>tax_rate = 0, long_term_growth_rate = fl (3 / 100), wacc = fl (8 / 100),
      share_price = 3, shares_outstanding = 1000, cash = 0, debt = 0,
      ebit = [10, 0, 0, 0, 0], da = [0, 0, 0, 0, 0], capex = [0, 0, 0, 0, 0],
      changes_in_nwc = [0, 0, 0, 0, 0]\<rparr>"

section \<open>Closed forms of the two loops and of the result\<close>

text \<open>The value the first loop appends for index \<open>i\<close>, and the one the second loop appends.\<close>

definition fcf_at :: "user_inputs \<Rightarrow> nat \<Rightarrow> real" where
  "fcf_at u i =
     ebit u ! i + ebit u ! i * tax_rate u * (- 1) + da u ! i + capex u ! i + changes_in_nwc u ! i"

definition pv_at :: "user_inputs \<Rightarrow> real list \<Rightarrow> nat \<Rightarrow> real" where
  "pv_at u fs i = fs ! i * (1 / (1 + wacc u) ^ (i + 1))"

definition fcfs :: "user_inputs \<Rightarrow> real list" where
  "fcfs u = map (fcf_at u) [0..<5]"

definition pvs :: "user_inputs \<Rightarrow> real list" where
  "pvs u = map (pv_at u (fcfs u)) [0..<5]"

text \<open>All four projection lists have at least \<open>n\<close> elements.\<close>

definition long_enough :: "user_inputs \<Rightarrow> nat \<Rightarrow> bool" where
  "long_enough u n =
     (n \<le> length (ebit u) \<and> n \<le> length (da u) \<and> n \<le> length (capex u) \<and>
      n \<le> length (changes_in_nwc u))"

text \<open>The fifth power of \<open>1 + wacc\<close>, the largest one the code takes, is too large.\<close>

definition overflows :: "user_inputs \<Rightarrow> bool" where
  "overflows u = (overflow_threshold \<le> \<bar>(1 + wacc u) ^ 5\<bar>)"

text \<open>One of the divisors of \<open>calculate_dcf\<close> is zero.\<close>

definition singular :: "user_inputs \<Rightarrow> bool" where
  "singular u =
     (wacc u = long_term_growth_rate u \<or> 1 + wacc u = 0 \<or> shares_outstanding u = 0 \<or>
      mul_py (share_price u) (shares_outstanding u) = 0)"

definition result_of :: "user_inputs \<Rightarrow> dcf_results" where
  "result_of u =
     (let tv = fcf_at u 4 * (1 + long_term_growth_rate u) / (wacc u - long_term_growth_rate u);
          ptv = tv * (1 / (1 + wacc u) ^ 5);
          ev = sum_py (pvs u) + ptv;
          eq = ev + cash u - debt u;
          mc = mul_py (share_price u) (shares_outstanding u)
      in \<lparr>fcf = fcfs u, terminal_value = tv, present_values = pvs u,
          present_terminal_value = ptv, enterprise_value = ev, equity_value = eq,
          intrinsic_value_per_share = eq / shares_outstanding u, market_cap = mc,
          intrinsic_value_premium = eq - mc,
          intrinsic_value_premium_percentage = (eq - mc) / mc\<rparr>)"

section \<open>The engine, step by step\<close>

lemma and_then_Inl: "and_then (Inl e) f = Inl e"
  by (simp add: and_then_def)

lemma and_then_Inr: "and_then (Inr v) f = f v"
  by (simp add: and_then_def)

lemma getitem_nat: "i < length xs \<Longrightarrow> getitem xs (int i) = Inr (xs ! i)"
  by (simp add: getitem_def)

lemma range_5: "[0..<5] = [0, 1, 2, 3, 4]"
  by (simp add: upt_conv_Cons)

lemma sum_py_sum_list: "sum_py xs = sum_list xs"
proof -
  have "foldl (+) a xs = a + sum_list xs" for a :: real
    by (induction xs arbitrary: a) (simp_all add: add.assoc)
  from this [of 0] show ?thesis by (simp add: sum_py_def)
qed

text \<open>The first loop returns the closed form when every index it visits is in range,
  and raises \<open>IndexError\<close> when one of them is not.\<close>

lemma fcf_loop_ok:
  "list_all (\<lambda>i. long_enough u (Suc i)) js \<Longrightarrow> fcf_loop u js acc = Inr (acc @ map (fcf_at u) js)"
proof (induction js arbitrary: acc)
  case Nil
  then show ?case by simp
next
  case (Cons j js)
  then have "j < length (ebit u)" "j < length (da u)" "j < length (capex u)"
    "j < length (changes_in_nwc u)"
    by (simp_all add: long_enough_def)
  then show ?case using Cons
    by (simp add: getitem_nat and_then_Inr fcf_at_def)
qed

lemma fcf_loop_short:
  "j \<in> set js \<Longrightarrow> \<not> long_enough u (Suc j) \<Longrightarrow> fcf_loop u js acc = Inl IndexError"
proof (induction js arbitrary: acc)
  case Nil
  then show ?case by simp
next
  case (Cons k js)
  show ?case
  proof (cases "long_enough u (Suc k)")
    case True
    then have "k < length (ebit u)" "k < length (da u)" "k < length (capex u)"
      "k < length (changes_in_nwc u)"
      by (simp_all add: long_enough_def)
    moreover from True Cons.prems have "j \<in> set js" by auto
    ultimately show ?thesis using Cons.IH Cons.prems(2)
      by (simp add: getitem_nat and_then_Inr)
  next
    case False
    then show ?thesis
      by (auto simp add: long_enough_def getitem_def and_then_def Let_def not_le split: sum.splits)
  qed
qed

text \<open>The powers the code takes, \<open>(1 + wacc) ** k\<close> for \<open>k\<close> from 1 to 5: none is too large
  unless the fifth one is, and the power of zero is zero.\<close>

lemma overflow_threshold_gt_1: "1 < overflow_threshold"
  by (simp add: overflow_threshold_def)

lemma power_le_fifth:
  fixes x :: real
  assumes "k \<le> 5"
  shows "\<bar>x ^ k\<bar> \<le> max 1 \<bar>x ^ 5\<bar>"
proof (cases "\<bar>x\<bar> \<le> 1")
  case True
  then have "\<bar>x\<bar> ^ k \<le> 1" by (simp add: power_le_one)
  then show ?thesis by (simp add: power_abs)
next
  case False
  then have "1 \<le> \<bar>x\<bar>" by simp
  with assms have "\<bar>x\<bar> ^ k \<le> \<bar>x\<bar> ^ 5" by (rule power_increasing)
  then show ?thesis by (simp add: power_abs)
qed

lemma pow_py_ok:
  assumes "\<not> overflows u" and "k \<le> 5"
  shows "pow_py (1 + wacc u) k = Inr ((1 + wacc u) ^ k)"
proof -
  from assms(1) have "\<bar>(1 + wacc u) ^ 5\<bar> < overflow_threshold" by (simp add: overflows_def)
  with overflow_threshold_gt_1 have "max 1 \<bar>(1 + wacc u) ^ 5\<bar> < overflow_threshold" by simp
  with power_le_fifth [OF assms(2), of "1 + wacc u"]
  have "\<bar>(1 + wacc u) ^ k\<bar> < overflow_threshold" by linarith
  then show ?thesis by (simp add: pow_py_def)
qed

lemma overflows_nonzero: "overflows u \<Longrightarrow> 1 + wacc u \<noteq> 0"
  using overflow_threshold_gt_1 by (auto simp add: overflows_def)

text \<open>The second loop returns the closed form unless a power is too large or \<open>1 + wacc\<close>
  is zero; then it raises at the first such step.\<close>

lemma pv_loop_ok:
  "\<not> overflows u \<Longrightarrow> 1 + wacc u \<noteq> 0 \<Longrightarrow> list_all (\<lambda>i. i < length fs \<and> i < 5) js \<Longrightarrow>
   pv_loop u fs js acc = Inr (acc @ map (pv_at u fs) js)"
  by (induction js arbitrary: acc)
    (simp_all add: pow_py_ok truediv_def getitem_nat and_then_Inr pv_at_def)

lemma pv_loop_zero:
  "1 + wacc u = 0 \<Longrightarrow> js \<noteq> [] \<Longrightarrow> pv_loop u fs js acc = Inl ZeroDivisionError"
  using overflow_threshold_gt_1
  by (cases js) (simp_all add: pow_py_def truediv_def and_then_Inl and_then_Inr)

lemma pv_loop_overflow:
  assumes "1 + wacc u \<noteq> 0" and "list_all (\<lambda>i. i < length fs) js"
    and "j \<in> set js" and "overflow_threshold \<le> \<bar>(1 + wacc u) ^ (j + 1)\<bar>"
  shows "pv_loop u fs js acc = Inl OverflowError"
  using assms(2,3)
proof (induction js arbitrary: acc)
  case Nil
  then show ?case by simp
next
  case (Cons k js)
  show ?case
  proof (cases "overflow_threshold \<le> \<bar>(1 + wacc u) ^ (k + 1)\<bar>")
    case True
    then show ?thesis by (simp add: pow_py_def and_then_Inl)
  next
    case False
    with assms(4) Cons.prems have "j \<in> set js" by auto
    moreover from Cons.prems have "list_all (\<lambda>i. i < length fs) js" "k < length fs" by simp_all
    ultimately show ?thesis using False assms(1) Cons.IH
      by (simp add: pow_py_def truediv_def getitem_nat and_then_Inr)
  qed
qed

lemma length_fcfs: "length (fcfs u) = 5"
  by (simp add: fcfs_def)

lemma fcfs_nth: "i < 5 \<Longrightarrow> fcfs u ! i = fcf_at u i"
  by (simp add: fcfs_def)

lemma pvs_nth: "i < 5 \<Longrightarrow> pvs u ! i = pv_at u (fcfs u) i"
  by (simp add: pvs_def)

lemma fcf_loop_5: "long_enough u 5 \<Longrightarrow> fcf_loop u [0..<5] [] = Inr (fcfs u)"
proof -
  assume h: "long_enough u 5"
  have "list_all (\<lambda>i. long_enough u (Suc i)) [0..<5]"
    using h by (auto simp add: list_all_iff long_enough_def)
  from fcf_loop_ok [OF this, of "[]"] show ?thesis by (simp add: fcfs_def)
qed

lemma fcf_loop_5_short: "\<not> long_enough u 5 \<Longrightarrow> fcf_loop u [0..<5] acc = Inl IndexError"
proof -
  assume h: "\<not> long_enough u 5"
  then have "\<not> long_enough u (Suc 4)" by simp
  then show ?thesis
    using fcf_loop_short [of 4 "[0..<5]" u acc] by simp
qed

lemma pv_loop_5:
  "\<not> overflows u \<Longrightarrow> 1 + wacc u \<noteq> 0 \<Longrightarrow> pv_loop u (fcfs u) [0..<5] [] = Inr (pvs u)"
proof -
  assume h: "\<not> overflows u" "1 + wacc u \<noteq> 0"
  have "list_all (\<lambda>i. i < length (fcfs u) \<and> i < 5) [0..<5]"
    by (simp add: list_all_iff length_fcfs)
  from pv_loop_ok [OF h this, of "[]"] show ?thesis by (simp add: pvs_def)
qed

lemma pv_loop_5_overflow:
  assumes "overflows u"
  shows "pv_loop u (fcfs u) [0..<5] [] = Inl OverflowError"
proof -
  have "list_all (\<lambda>i. i < length (fcfs u)) [0..<5]"
    by (simp add: list_all_iff length_fcfs)
  moreover have "(4::nat) \<in> set [0..<5]" by simp
  moreover from assms have "overflow_threshold \<le> \<bar>(1 + wacc u) ^ (4 + 1)\<bar>"
    by (simp add: overflows_def)
  ultimately show ?thesis
    using overflows_nonzero [OF assms] by (rule pv_loop_overflow [rotated])
qed

text \<open>\<open>fcf[-1]\<close> is the fifth element of the list the first loop built.\<close>

lemma getitem_last_fcfs: "getitem (fcfs u) (- 1) = Inr (fcf_at u 4)"
  by (simp add: getitem_def length_fcfs fcfs_nth)

subsection \<open>The outcomes of \<open>calculate_dcf\<close>\<close>

lemma calculate_dcf_short: "\<not> long_enough u 5 \<Longrightarrow> calculate_dcf u = Inl IndexError"
  by (simp add: calculate_dcf_def fcf_loop_5_short and_then_Inl)

lemma calculate_dcf_equal_rates:
  assumes "long_enough u 5" and "wacc u = long_term_growth_rate u"
  shows "calculate_dcf u = Inl ZeroDivisionError"
  using assms
  by (simp add: calculate_dcf_def fcf_loop_5 getitem_last_fcfs and_then_Inr and_then_Inl truediv_def)

lemma calculate_dcf_overflow:
  assumes "long_enough u 5" and "wacc u \<noteq> long_term_growth_rate u" and "overflows u"
  shows "calculate_dcf u = Inl OverflowError"
  using assms
  by (simp add: calculate_dcf_def fcf_loop_5 getitem_last_fcfs pv_loop_5_overflow and_then_Inr
      and_then_Inl truediv_def)

lemma calculate_dcf_singular:
  assumes "long_enough u 5" and "\<not> overflows u" and "singular u"
  shows "calculate_dcf u = Inl ZeroDivisionError"
proof (cases "wacc u = long_term_growth_rate u")
  case True
  with assms(1) show ?thesis by (rule calculate_dcf_equal_rates)
next
  case ne: False
  show ?thesis
  proof (cases "1 + wacc u = 0")
    case True
    then have "pv_loop u (fcfs u) [0..<5] [] = Inl ZeroDivisionError"
      by (intro pv_loop_zero) simp_all
    then show ?thesis using assms(1) ne
      by (simp add: calculate_dcf_def fcf_loop_5 getitem_last_fcfs and_then_Inr and_then_Inl truediv_def)
  next
    case False
    then have "(1 + wacc u) ^ 5 \<noteq> 0" by simp
    moreover have "shares_outstanding u = 0 \<or> mul_py (share_price u) (shares_outstanding u) = 0"
      using assms(3) ne False by (simp add: singular_def)
    ultimately show ?thesis using assms(1,2) ne False
      by (auto simp add: calculate_dcf_def fcf_loop_5 getitem_last_fcfs pv_loop_5 pow_py_ok
          and_then_Inr and_then_Inl truediv_def Let_def)
  qed
qed

lemma calculate_dcf_regular:
  assumes "long_enough u 5" and "\<not> overflows u" and "\<not> singular u"
  shows "calculate_dcf u = Inr (result_of u)"
proof -
  from assms(3) have ne: "wacc u - long_term_growth_rate u \<noteq> 0" "1 + wacc u \<noteq> 0"
    "shares_outstanding u \<noteq> 0" "mul_py (share_price u) (shares_outstanding u) \<noteq> 0"
    by (simp_all add: singular_def)
  then have "(1 + wacc u) ^ 5 \<noteq> 0" by simp
  then show ?thesis using assms(1,2) ne
    by (simp add: calculate_dcf_def fcf_loop_5 getitem_last_fcfs pv_loop_5 pow_py_ok and_then_Inr
        truediv_def Let_def result_of_def)
qed

lemma calculate_dcf_cases:
  "calculate_dcf u =
     (if \<not> long_enough u 5 then Inl IndexError
      else if wacc u = long_term_growth_rate u then Inl ZeroDivisionError
      else if overflows u then Inl OverflowError
      else if singular u then Inl ZeroDivisionError else Inr (result_of u))"
  by (simp add: calculate_dcf_short calculate_dcf_equal_rates calculate_dcf_overflow
      calculate_dcf_singular calculate_dcf_regular)

lemma calculate_dcf_Inr_iff:
  "calculate_dcf u = Inr r \<longleftrightarrow>
     long_enough u 5 \<and> \<not> overflows u \<and> \<not> singular u \<and> r = result_of u"
  by (auto simp add: calculate_dcf_cases singular_def)

lemma result_of_fields:
  "fcf (result_of u) = fcfs u"
  "terminal_value (result_of u) =
     fcf_at u 4 * (1 + long_term_growth_rate u) / (wacc u - long_term_growth_rate u)"
  "present_values (result_of u) = pvs u"
  "present_terminal_value (result_of u) = terminal_value (result_of u) * (1 / (1 + wacc u) ^ 5)"
  "enterprise_value (result_of u) = sum_py (pvs u) + present_terminal_value (result_of u)"
  "equity_value (result_of u) = enterprise_value (result_of u) + cash u - debt u"
  "intrinsic_value_per_share (result_of u) = equity_value (result_of u) / shares_outstanding u"
  "market_cap (result_of u) = mul_py (share_price u) (shares_outstanding u)"
  "intrinsic_value_premium (result_of u) = equity_value (result_of u) - market_cap (result_of u)"
  "intrinsic_value_premium_percentage (result_of u) =
     intrinsic_value_premium (result_of u) / market_cap (result_of u)"
  by (simp_all add: result_of_def Let_def)

subsection \<open>The runs on the default inputs and on the sample inputs\<close>

lemma pow_py_small: "\<bar>x\<bar> \<le> 2 \<Longrightarrow> k \<le> 5 \<Longrightarrow> pow_py x k = Inr (x ^ k)"
proof -
  assume a: "\<bar>x\<bar> \<le> 2" and k: "k \<le> 5"
  from a have "\<bar>x\<bar> ^ 5 \<le> 2 ^ 5" by (intro power_mono) simp_all
  then have "max 1 \<bar>x ^ 5\<bar> \<le> 32" by (simp add: power_abs)
  with power_le_fifth [OF k, of x] have "\<bar>x ^ k\<bar> \<le> 32" by linarith
  moreover have "32 < overflow_threshold" by (simp add: overflow_threshold_def)
  ultimately show ?thesis by (simp add: pow_py_def)
qed

lemma mul_py_exact: "1 \<le> \<bar>x * y\<bar> \<Longrightarrow> mul_py x y = x * y"
proof -
  assume a: "1 \<le> \<bar>x * y\<bar>"
  have "1 / 2 ^ 1075 < (1::real)" by simp
  with a have "\<not> \<bar>x * y\<bar> \<le> 1 / 2 ^ 1075" by linarith
  then show ?thesis by (simp only: mul_py_def if_False)
qed

lemma long_enough_default: "long_enough default_inputs 5"
  by (simp add: long_enough_def default_inputs_def)

lemma calculate_dcf_default: "calculate_dcf default_inputs = Inr default_results"
  by (simp add: calculate_dcf_def default_inputs_def default_results_def range_5 and_then_def
      getitem_def truediv_def Let_def sum_py_def pow_py_small mul_py_exact)

lemma calculate_dcf_sample: "calculate_dcf sample_inputs = Inr sample_results"
  by (simp add: calculate_dcf_def sample_inputs_def sample_results_def range_5 and_then_def
      getitem_def truediv_def Let_def sum_py_def pow_py_small mul_py_exact power_divide)

text \<open>
  The overflow test at its boundary. For a float \<open>wacc\<close> of this size \<open>1 + wacc\<close> rounds
  to \<open>wacc\<close>, so Python takes the power of \<open>wacc\<close> itself. The largest float whose fifth
  power is not too large is \<open>7841222384935200 * 2 ^ 152\<close>, about \<open>4.4765e61\<close>; on it and
  on the next float, of either sign, the test on the exact power of \<open>1 + wacc\<close> decides
  as the float power does.
\<close>

lemma overflows_boundary:
  "\<not> overflows (default_inputs\<lparr>wacc := 7841222384935200 * 2 ^ 152\<rparr>)"
  "overflows (default_inputs\<lparr>wacc := 7841222384935201 * 2 ^ 152\<rparr>)"
  "\<not> overflows (default_inputs\<lparr>wacc := - (7841222384935200 * 2 ^ 152)\<rparr>)"
  "overflows (default_inputs\<lparr>wacc := - (7841222384935201 * 2 ^ 152)\<rparr>)"
  by (simp_all add: overflows_def overflow_threshold_def)

section \<open>Evaluation of the rounding to a float\<close>

text \<open>\<open>binade\<close> on numerals and on quotients of numerals, one halving or doubling at a time.\<close>

declare binade.simps [simp del]

lemma binade_numeral:
  "binade (numeral k) = (if 2 \<le> (numeral k :: real) then binade (numeral k / 2) + 1 else 0)"
  by (subst binade.simps) simp

lemma binade_frac:
  "binade (numeral a / numeral b) =
     (if 2 \<le> (numeral a / numeral b :: real) then binade (numeral a / numeral b / 2) + 1
      else if (numeral a / numeral b :: real) < 1 then binade (2 * (numeral a / numeral b)) - 1
      else 0)"
  by (subst binade.simps) simp

lemma binade_1: "binade 1 = 0"
  by (subst binade.simps) simp

lemmas fl_eval = fl_def Let_def pow2_def round_half_even_def binade_numeral binade_frac binade_1

lemma fl_0: "fl 0 = 0"
  by (simp add: fl_def)

text \<open>The float \<open>0.08\<close>, the default of \<open>wacc\<close>, and the float \<open>1 + 0.08\<close>.\<close>

lemma fl_eight_hundredths: "fl (8 / 100) = 5764607523034235 / 72057594037927936"
  by (simp add: fl_eval)

lemma fl_one_plus_eight_hundredths:
  "fl (1 + fl (8 / 100)) = 607985949695017 / 562949953421312"
  by (simp add: fl_eval)

section \<open>Claims about the valuation engine\<close>

text \<open>
  Claim C1, as amended. On inputs whose four projection lists have at least five
  elements, \<open>calculate_dcf\<close> has three outcomes. It raises \<open>ZeroDivisionError\<close> exactly
  when \<open>wacc = long_term_growth_rate\<close>, or when no power overflows and \<open>wacc = -1\<close> (the
  discount factor \<open>1 / (1 + wacc) ** (i + 1)\<close> divides by zero), \<open>shares_outstanding = 0\<close>
  or the float product \<open>market_cap = share_price * shares_outstanding\<close> is zero. It
  raises \<open>OverflowError\<close> exactly when \<open>wacc\<close> differs from the growth rate and the power
  \<open>(1 + wacc) ** 5\<close> is too large for a float. In every other case it returns a result.
  A failure is the value \<open>Inl\<close> of the error: no result, partial or not, comes with it.
\<close>

theorem calculate_dcf_fails_iff:
  assumes "5 \<le> length (ebit u)" and "5 \<le> length (da u)" and "5 \<le> length (capex u)"
    and "5 \<le> length (changes_in_nwc u)"
  shows "(calculate_dcf u = Inl ZeroDivisionError) =
           (wacc u = long_term_growth_rate u \<or>
            \<bar>(1 + wacc u) ^ 5\<bar> < overflow_threshold \<and>
            (wacc u = - 1 \<or> shares_outstanding u = 0 \<or>
             mul_py (share_price u) (shares_outstanding u) = 0)) \<and>
         (calculate_dcf u = Inl OverflowError) =
           (wacc u \<noteq> long_term_growth_rate u \<and> overflow_threshold \<le> \<bar>(1 + wacc u) ^ 5\<bar>) \<and>
         (\<exists>r. calculate_dcf u = Inr r) =
           (wacc u \<noteq> long_term_growth_rate u \<and> \<bar>(1 + wacc u) ^ 5\<bar> < overflow_threshold \<and>
            wacc u \<noteq> - 1 \<and> shares_outstanding u \<noteq> 0 \<and>
            mul_py (share_price u) (shares_outstanding u) \<noteq> 0)"
proof -
  from assms have le: "long_enough u 5" by (simp add: long_enough_def)
  have s: "singular u = (wacc u = long_term_growth_rate u \<or> wacc u = - 1 \<or>
      shares_outstanding u = 0 \<or> mul_py (share_price u) (shares_outstanding u) = 0)"
    by (auto simp add: singular_def)
  have o: "overflows u = (overflow_threshold \<le> \<bar>(1 + wacc u) ^ 5\<bar>)"
    by (simp add: overflows_def)
  show ?thesis
    unfolding calculate_dcf_cases using le by (auto simp add: s o)
qed

theorem calculate_dcf_fails_iff_witness:
  "5 \<le> length (ebit default_inputs) \<and> 5 \<le> length (da default_inputs) \<and>
   5 \<le> length (capex default_inputs) \<and> 5 \<le> length (changes_in_nwc default_inputs) \<and>
   (\<exists>r. calculate_dcf default_inputs = Inr r) \<and>
   calculate_dcf (default_inputs\<lparr>wacc := 3 / 100\<rparr>) = Inl ZeroDivisionError \<and>
   calculate_dcf (default_inputs\<lparr>shares_outstanding := 0\<rparr>) = Inl ZeroDivisionError \<and>
   calculate_dcf (default_inputs\<lparr>share_price := 1 / 2 ^ 1074, shares_outstanding := 1 / 2\<rparr>) =
     Inl ZeroDivisionError \<and>
   calculate_dcf (default_inputs\<lparr>wacc := 10 ^ 62\<rparr>) = Inl OverflowError \<and>
   calculate_dcf (default_inputs\<lparr>wacc := 10 ^ 62, shares_outstanding := 0\<rparr>) = Inl OverflowError"
proof -
  have a: "(\<exists>r. calculate_dcf default_inputs = Inr r)"
    using calculate_dcf_fails_iff [of default_inputs]
    by (simp add: default_inputs_def overflow_threshold_def mul_py_def power_divide)
  have b: "calculate_dcf (default_inputs\<lparr>wacc := 3 / 100\<rparr>) = Inl ZeroDivisionError"
    using calculate_dcf_fails_iff [of "default_inputs\<lparr>wacc := 3 / 100\<rparr>"]
    by (simp add: default_inputs_def)
  have c: "calculate_dcf (default_inputs\<lparr>shares_outstanding := 0\<rparr>) = Inl ZeroDivisionError"
    using calculate_dcf_fails_iff [of "default_inputs\<lparr>shares_outstanding := 0\<rparr>"]
    by (simp add: default_inputs_def overflow_threshold_def power_divide)
  have d: "calculate_dcf (default_inputs\<lparr>share_price := 1 / 2 ^ 1074, shares_outstanding := 1 / 2\<rparr>) =
     Inl ZeroDivisionError"
    using calculate_dcf_fails_iff
      [of "default_inputs\<lparr>share_price := 1 / 2 ^ 1074, shares_outstanding := 1 / 2\<rparr>"]
    by (simp add: default_inputs_def overflow_threshold_def mul_py_def power_divide)
  have e: "calculate_dcf (default_inputs\<lparr>wacc := 10 ^ 62\<rparr>) = Inl OverflowError"
    using calculate_dcf_fails_iff [of "default_inputs\<lparr>wacc := 10 ^ 62\<rparr>"]
    by (simp add: default_inputs_def overflow_threshold_def power_divide)
  have f: "calculate_dcf (default_inputs\<lparr>wacc := 10 ^ 62, shares_outstanding := 0\<rparr>) = Inl OverflowError"
    using calculate_dcf_fails_iff [of "default_inputs\<lparr>wacc := 10 ^ 62, shares_outstanding := 0\<rparr>"]
    by (simp add: default_inputs_def overflow_threshold_def power_divide)
  from a b c d e f show ?thesis by (simp add: default_inputs_def)
qed

text \<open>
  Claim C1 as stated fails: with \<open>wacc = -1\<close> and every other field at its default, the
  growth rate differs from \<open>wacc\<close>, the share count and the market capitalisation are
  not zero, and \<open>calculate_dcf\<close> raises the division error all the same.
\<close>

theorem wacc_minus_one_counterexample:
  "calculate_dcf (default_inputs\<lparr>wacc := - 1\<rparr>) = Inl ZeroDivisionError \<and>
   wacc (default_inputs\<lparr>wacc := - 1\<rparr>) \<noteq> long_term_growth_rate (default_inputs\<lparr>wacc := - 1\<rparr>) \<and>
   shares_outstanding (default_inputs\<lparr>wacc := - 1\<rparr>) \<noteq> 0 \<and>
   share_price (default_inputs\<lparr>wacc := - 1\<rparr>) * shares_outstanding (default_inputs\<lparr>wacc := - 1\<rparr>) \<noteq> 0"
  by (simp add: calculate_dcf_def default_inputs_def range_5 and_then_def getitem_def truediv_def
      Let_def pow_py_small)

text \<open>
  Claim C2. Whenever \<open>calculate_dcf\<close> returns, the list \<open>fcf\<close> of the result has five
  elements, and for every index \<open>i\<close> from 0 to 4
  \<open>fcf[i] = ebit[i] - ebit[i] * tax_rate + da[i] + capex[i] + changes_in_nwc[i]\<close>:
  capex and the change in working capital are added with the sign they come with.
\<close>

theorem fcf_formula:
  assumes "calculate_dcf u = Inr r" and "i < 5"
  shows "length (fcf r) = 5 \<and>
         fcf r ! i =
           ebit u ! i - ebit u ! i * tax_rate u + da u ! i + capex u ! i + changes_in_nwc u ! i"
proof -
  from assms(1) have "r = result_of u" by (simp add: calculate_dcf_Inr_iff)
  then have "fcf r = fcfs u" by (simp add: result_of_fields)
  with assms(2) show ?thesis by (simp add: length_fcfs fcfs_nth fcf_at_def)
qed

theorem fcf_formula_witness:
  "calculate_dcf default_inputs = Inr default_results \<and> (0::nat) < 5 \<and>
   length (fcf default_results) = 5 \<and>
   fcf default_results ! 0 = 270 - 270 * (21 / 100) + 20 + (- 30) + (- 28 / 10)"
  using fcf_formula [OF calculate_dcf_default, of 0] calculate_dcf_default
  by (simp add: default_inputs_def)

text \<open>
  Claim C3. Whenever \<open>calculate_dcf\<close> returns, \<open>wacc\<close> differs from the growth rate
  \<open>g\<close> and the terminal value is \<open>fcf[4] * (1 + g) / (wacc - g)\<close>, where \<open>fcf[4]\<close> is the
  last of the five free cash flows of the result, the one built from the inputs of the
  fifth period: \<open>ebit[4] - ebit[4] * tax_rate + da[4] + capex[4] + changes_in_nwc[4]\<close>.
\<close>

theorem terminal_value_formula:
  assumes "calculate_dcf u = Inr r"
  shows "wacc u \<noteq> long_term_growth_rate u \<and> length (fcf r) = 5 \<and>
         fcf r ! 4 =
           ebit u ! 4 - ebit u ! 4 * tax_rate u + da u ! 4 + capex u ! 4 + changes_in_nwc u ! 4 \<and>
         terminal_value r =
           fcf r ! 4 * (1 + long_term_growth_rate u) / (wacc u - long_term_growth_rate u) \<and>
         terminal_value r =
           (ebit u ! 4 - ebit u ! 4 * tax_rate u + da u ! 4 + capex u ! 4 + changes_in_nwc u ! 4) *
           (1 + long_term_growth_rate u) / (wacc u - long_term_growth_rate u)"
proof -
  from assms have r: "r = result_of u" and ns: "\<not> singular u"
    by (simp_all add: calculate_dcf_Inr_iff)
  from ns have "wacc u \<noteq> long_term_growth_rate u" by (simp add: singular_def)
  then show ?thesis unfolding r by (simp add: result_of_fields length_fcfs fcfs_nth fcf_at_def)
qed

theorem terminal_value_formula_witness:
  "calculate_dcf sample_inputs = Inr sample_results \<and>
   wacc sample_inputs \<noteq> long_term_growth_rate sample_inputs \<and>
   length (fcf sample_results) = 5 \<and>
   fcf sample_results ! 4 = 820 - 820 * (1 / 4) + 50 + (- 20) + (- 5) \<and>
   fcf sample_results ! 4 = 640 \<and>
   terminal_value sample_results = 640 * (1 + 1 / 20) / (1 / 4 - 1 / 20) \<and>
   terminal_value sample_results = 3360"
  using terminal_value_formula [OF calculate_dcf_sample] calculate_dcf_sample
  by (simp add: sample_inputs_def sample_results_def)

text \<open>
  Claim C4, as amended. Discounting is end of period: whenever \<open>calculate_dcf\<close> returns,
  for every index \<open>i\<close> from 0 to 4 the present value is the product of the free cash
  flow and the discount factor of the end of period \<open>i + 1\<close>,
  \<open>present_values[i] = fcf[i] * (1 / (1 + wacc) ^ (i + 1))\<close>, where \<open>fcf[i]\<close> is built
  from the inputs of that period, and
  \<open>present_terminal_value = terminal_value * (1 / (1 + wacc) ^ 5)\<close>, the factor of
  period 5. The exponents are the whole numbers 1 to 5: no mid-year convention.
\<close>

theorem end_of_period_discounting:
  assumes "calculate_dcf u = Inr r" and "i < 5"
  shows "length (present_values r) = 5 \<and>
         present_values r ! i = fcf r ! i * (1 / (1 + wacc u) ^ (i + 1)) \<and>
         present_values r ! i =
           (ebit u ! i - ebit u ! i * tax_rate u + da u ! i + capex u ! i + changes_in_nwc u ! i) *
           (1 / (1 + wacc u) ^ (i + 1)) \<and>
         present_terminal_value r = terminal_value r * (1 / (1 + wacc u) ^ 5) \<and>
         present_terminal_value r =
           (ebit u ! 4 - ebit u ! 4 * tax_rate u + da u ! 4 + capex u ! 4 + changes_in_nwc u ! 4) *
           (1 + long_term_growth_rate u) / (wacc u - long_term_growth_rate u) *
           (1 / (1 + wacc u) ^ 5)"
proof -
  from assms(1) have r: "r = result_of u" by (simp add: calculate_dcf_Inr_iff)
  have "length (pvs u) = 5" by (simp add: pvs_def)
  moreover have "pvs u ! i = fcfs u ! i * (1 / (1 + wacc u) ^ (i + 1))"
    using assms(2) by (simp add: pvs_nth pv_at_def)
  moreover have "fcfs u ! i =
    ebit u ! i - ebit u ! i * tax_rate u + da u ! i + capex u ! i + changes_in_nwc u ! i"
    using assms(2) by (simp add: fcfs_nth fcf_at_def)
  moreover have "fcf_at u 4 =
    ebit u ! 4 - ebit u ! 4 * tax_rate u + da u ! 4 + capex u ! 4 + changes_in_nwc u ! 4"
    by (simp add: fcf_at_def)
  ultimately show ?thesis unfolding r by (simp add: result_of_fields)
qed

theorem end_of_period_discounting_witness:
  "calculate_dcf sample_inputs = Inr sample_results \<and> (2::nat) < 5 \<and>
   fcf sample_results ! 2 = 240 \<and>
   present_values sample_results ! 2 = 240 * (1 / (1 + 1 / 4) ^ 3) \<and>
   present_values sample_results ! 2 = 3072 / 25 \<and>
   terminal_value sample_results = 3360 \<and>
   present_terminal_value sample_results = 3360 * (1 / (1 + 1 / 4) ^ 5) \<and>
   present_terminal_value sample_results = 688128 / 625"
  using end_of_period_discounting [OF calculate_dcf_sample, of 2] calculate_dcf_sample
  by (simp add: sample_inputs_def sample_results_def power_divide)

text \<open>
  Claim C4 as stated fails in the arithmetic of the code. The code multiplies \<open>fcf[i]\<close>
  by the rounded reciprocal of the power; the claim divides by the power. On
  \<open>rounding_inputs\<close> the first free cash flow is \<open>10.0\<close>; the code's
  \<open>present_values[0]\<close> is the float \<open>9.259259259259258\<close> and the quotient
  \<open>fcf[0] / (1 + wacc) ** 1\<close> is the next float, \<open>9.25925925925926\<close>.
\<close>

theorem reciprocal_rounding_counterexample:
  "fcf_double rounding_inputs 0 = 10 \<and>
   present_value_double rounding_inputs 0 = 5212499568715851 / 562949953421312 \<and>
   quotient_double rounding_inputs 0 = 5212499568715852 / 562949953421312 \<and>
   present_value_double rounding_inputs 0 \<noteq> quotient_double rounding_inputs 0"
proof -
  have w: "fl (1 + fl (8 / 100)) = 607985949695017 / 562949953421312"
    by (simp add: fl_eval)
  have f: "fcf_double rounding_inputs 0 = 10"
    by (simp add: fcf_double_def rounding_inputs_def fl_eval)
  have d: "fl (1 / (607985949695017 / 562949953421312)) = 4169999654972681 / 4503599627370496"
    by (simp add: fl_eval)
  have p: "present_value_double rounding_inputs 0 = 5212499568715851 / 562949953421312"
    unfolding present_value_double_def f by (simp add: rounding_inputs_def w d fl_eval)
  have q: "quotient_double rounding_inputs 0 = 5212499568715852 / 562949953421312"
    unfolding quotient_double_def f by (simp add: rounding_inputs_def w fl_eval)
  from f p q show ?thesis by simp
qed



text \<open>Changing the share price of inputs on which \<open>calculate_dcf\<close> returns: a price
  whose float product with the share count is not zero changes three fields of the
  result, a price whose product is zero makes it raise.\<close>

lemma mul_py_zero: "mul_py 0 y = 0"
  by (simp add: mul_py_def)

lemma mul_py_nonzero: "mul_py x y \<noteq> 0 \<Longrightarrow> mul_py x y = x * y"
  by (simp add: mul_py_def split: if_splits)

lemma share_price_update:
  assumes "calculate_dcf u = Inr r" and "mul_py p (shares_outstanding u) \<noteq> 0"
  shows "calculate_dcf (u\<lparr>share_price := p\<rparr>) =
           Inr (r\<lparr>market_cap := p * shares_outstanding u,
                  intrinsic_value_premium := equity_value r - p * shares_outstanding u,
                  intrinsic_value_premium_percentage :=
                    (equity_value r - p * shares_outstanding u) / (p * shares_outstanding u)\<rparr>)"
proof -
  let ?v = "u\<lparr>share_price := p\<rparr>"
  from assms(1) have le: "long_enough u 5" and no: "\<not> overflows u" and ns: "\<not> singular u"
    and r: "r = result_of u"
    by (simp_all add: calculate_dcf_Inr_iff)
  have le': "long_enough ?v 5" using le by (simp add: long_enough_def)
  have no': "\<not> overflows ?v" using no by (simp add: overflows_def)
  have ns': "\<not> singular ?v" using ns assms(2) by (simp add: singular_def)
  have m: "mul_py p (shares_outstanding u) = p * shares_outstanding u"
    using assms(2) by (rule mul_py_nonzero)
  have f: "fcf_at ?v = fcf_at u" by (simp add: fcf_at_def fun_eq_iff)
  then have fs: "fcfs ?v = fcfs u" by (simp add: fcfs_def)
  have "pv_at ?v = pv_at u" by (simp add: pv_at_def fun_eq_iff)
  with fs have ps: "pvs ?v = pvs u" by (simp add: pvs_def)
  have "result_of ?v = (result_of u)\<lparr>market_cap := p * shares_outstanding u,
      intrinsic_value_premium := equity_value (result_of u) - p * shares_outstanding u,
      intrinsic_value_premium_percentage :=
        (equity_value (result_of u) - p * shares_outstanding u) / (p * shares_outstanding u)\<rparr>"
    by (simp add: result_of_def Let_def f fs ps m)
  with le' no' ns' show ?thesis unfolding r by (simp add: calculate_dcf_regular)
qed

lemma share_price_zero_fails:
  assumes "calculate_dcf u = Inr r" and "mul_py p (shares_outstanding u) = 0"
  shows "calculate_dcf (u\<lparr>share_price := p\<rparr>) = Inl ZeroDivisionError"
proof -
  from assms(1) have "long_enough u 5" and "\<not> overflows u"
    by (simp_all add: calculate_dcf_Inr_iff)
  then have "long_enough (u\<lparr>share_price := p\<rparr>) 5" and "\<not> overflows (u\<lparr>share_price := p\<rparr>)"
    by (simp_all add: long_enough_def overflows_def)
  moreover have "singular (u\<lparr>share_price := p\<rparr>)" using assms(2) by (simp add: singular_def)
  ultimately show ?thesis by (rule calculate_dcf_singular)
qed

text \<open>
  Claim C9, as amended. Take inputs on which \<open>calculate_dcf\<close> returns a result, and
  give them another share price. If the float product of the new price and the share
  count is not zero, \<open>calculate_dcf\<close> returns a result again, with the same \<open>fcf\<close>,
  \<open>terminal_value\<close>, \<open>present_values\<close>, \<open>present_terminal_value\<close>, \<open>enterprise_value\<close>,
  \<open>equity_value\<close> and \<open>intrinsic_value_per_share\<close>; only \<open>market_cap\<close>,
  \<open>intrinsic_value_premium\<close> and \<open>intrinsic_value_premium_percentage\<close> follow the new
  price. If that product is zero, as it is when the new price is zero or so small that
  the product is below the smallest float, \<open>calculate_dcf\<close> raises the division error
  and returns nothing.
\<close>

theorem share_price_confined:
  assumes "calculate_dcf u = Inr r"
  shows "(mul_py p (shares_outstanding u) \<noteq> 0 \<longrightarrow>
           (\<exists>r'. calculate_dcf (u\<lparr>share_price := p\<rparr>) = Inr r' \<and>
              fcf r' = fcf r \<and> terminal_value r' = terminal_value r \<and>
              present_values r' = present_values r \<and>
              present_terminal_value r' = present_terminal_value r \<and>
              enterprise_value r' = enterprise_value r \<and> equity_value r' = equity_value r \<and>
              intrinsic_value_per_share r' = intrinsic_value_per_share r \<and>
              market_cap r' = p * shares_outstanding u \<and>
              intrinsic_value_premium r' = equity_value r - market_cap r' \<and>
              intrinsic_value_premium_percentage r' = intrinsic_value_premium r' / market_cap r')) \<and>
         (mul_py p (shares_outstanding u) = 0 \<longrightarrow>
            calculate_dcf (u\<lparr>share_price := p\<rparr>) = Inl ZeroDivisionError) \<and>
         (p = 0 \<longrightarrow> calculate_dcf (u\<lparr>share_price := p\<rparr>) = Inl ZeroDivisionError)"
proof (intro conjI impI)
  assume "mul_py p (shares_outstanding u) \<noteq> 0"
  from share_price_update [OF assms this]
  show "\<exists>r'. calculate_dcf (u\<lparr>share_price := p\<rparr>) = Inr r' \<and>
              fcf r' = fcf r \<and> terminal_value r' = terminal_value r \<and>
              present_values r' = present_values r \<and>
              present_terminal_value r' = present_terminal_value r \<and>
              enterprise_value r' = enterprise_value r \<and> equity_value r' = equity_value r \<and>
              intrinsic_value_per_share r' = intrinsic_value_per_share r \<and>
              market_cap r' = p * shares_outstanding u \<and>
              intrinsic_value_premium r' = equity_value r - market_cap r' \<and>
              intrinsic_value_premium_percentage r' = intrinsic_value_premium r' / market_cap r'"
    by simp
next
  assume "mul_py p (shares_outstanding u) = 0"
  with assms show "calculate_dcf (u\<lparr>share_price := p\<rparr>) = Inl ZeroDivisionError"
    by (rule share_price_zero_fails)
next
  assume "p = 0"
  then have "mul_py p (shares_outstanding u) = 0" by (simp add: mul_py_zero)
  with assms show "calculate_dcf (u\<lparr>share_price := p\<rparr>) = Inl ZeroDivisionError"
    by (rule share_price_zero_fails)
qed

theorem share_price_confined_witness:
  "calculate_dcf sample_inputs = Inr sample_results \<and>
   mul_py 5 (shares_outstanding sample_inputs) \<noteq> 0 \<and>
   (\<exists>r'. calculate_dcf (sample_inputs\<lparr>share_price := 5\<rparr>) = Inr r' \<and>
      fcf r' = [80, 160, 240, 320, 640] \<and> terminal_value r' = 3360 \<and>
      equity_value r' = 210134 / 125 \<and> intrinsic_value_per_share r' = 105067 / 2500 \<and>
      market_cap r' = 200 \<and> intrinsic_value_premium r' = 210134 / 125 - 200 \<and>
      intrinsic_value_premium_percentage r' = (210134 / 125 - 200) / 200) \<and>
   mul_py 0 (shares_outstanding sample_inputs) = 0 \<and>
   calculate_dcf (sample_inputs\<lparr>share_price := 0\<rparr>) = Inl ZeroDivisionError \<and>
   calculate_dcf (sample_inputs\<lparr>shares_outstanding := 1 / 4\<rparr>) =
     Inr (result_of (sample_inputs\<lparr>shares_outstanding := 1 / 4\<rparr>)) \<and>
   mul_py (1 / 2 ^ 1074) (shares_outstanding (sample_inputs\<lparr>shares_outstanding := 1 / 4\<rparr>)) = 0 \<and>
   calculate_dcf (sample_inputs\<lparr>shares_outstanding := 1 / 4, share_price := 1 / 2 ^ 1074\<rparr>) =
     Inl ZeroDivisionError"
proof -
  have m: "mul_py 5 (shares_outstanding sample_inputs) \<noteq> 0"
    "mul_py 0 (shares_outstanding sample_inputs) = 0"
    "mul_py (1 / 2 ^ 1074) (shares_outstanding (sample_inputs\<lparr>shares_outstanding := 1 / 4\<rparr>)) = 0"
    by (simp_all add: mul_py_def sample_inputs_def)
  have a: "\<exists>r'. calculate_dcf (sample_inputs\<lparr>share_price := 5\<rparr>) = Inr r' \<and>
      fcf r' = [80, 160, 240, 320, 640] \<and> terminal_value r' = 3360 \<and>
      equity_value r' = 210134 / 125 \<and> intrinsic_value_per_share r' = 105067 / 2500 \<and>
      market_cap r' = 200 \<and> intrinsic_value_premium r' = 210134 / 125 - 200 \<and>
      intrinsic_value_premium_percentage r' = (210134 / 125 - 200) / 200"
    using share_price_confined [OF calculate_dcf_sample, of 5] m(1)
    by (auto simp add: sample_inputs_def sample_results_def)
  have b: "calculate_dcf (sample_inputs\<lparr>share_price := 0\<rparr>) = Inl ZeroDivisionError"
    using share_price_confined [OF calculate_dcf_sample, of 0] by simp
  have q: "calculate_dcf (sample_inputs\<lparr>shares_outstanding := 1 / 4\<rparr>) =
     Inr (result_of (sample_inputs\<lparr>shares_outstanding := 1 / 4\<rparr>))"
    by (rule calculate_dcf_regular)
      (simp_all add: long_enough_def overflows_def singular_def overflow_threshold_def mul_py_def
        sample_inputs_def power_divide)
  have c: "calculate_dcf (sample_inputs\<lparr>shares_outstanding := 1 / 4, share_price := 1 / 2 ^ 1074\<rparr>) =
     Inl ZeroDivisionError"
    using share_price_confined [OF q, of "1 / 2 ^ 1074"] m(3) by simp
  from calculate_dcf_sample m a b q c show ?thesis by blast
qed

text \<open>
  Claim C9 as stated fails: the default inputs and the same inputs with share price 0
  differ in the share price only, the share count is not zero and \<open>wacc\<close> differs from
  the growth rate, yet the first run returns a result and the second raises, so it
  returns no \<open>fcf\<close> at all.
\<close>

theorem share_price_zero_counterexample:
  "calculate_dcf default_inputs = Inr default_results \<and>
   calculate_dcf (default_inputs\<lparr>share_price := 0\<rparr>) = Inl ZeroDivisionError \<and>
   shares_outstanding default_inputs \<noteq> 0 \<and>
   wacc default_inputs \<noteq> long_term_growth_rate default_inputs"
  by (simp add: calculate_dcf_def default_inputs_def default_results_def range_5 and_then_def
      getitem_def truediv_def Let_def sum_py_def pow_py_small mul_py_exact mul_py_zero)

text \<open>
  Claim C10. When the four projection lists have at least five elements, replacing
  whatever follows their first five elements by anything else changes nothing in what
  \<open>calculate_dcf\<close> returns, result or error. In particular the terminal value of a
  result is built from the elements at index 4, the fifth free cash flow.
\<close>

theorem reads_first_five_only:
  assumes "5 \<le> length (ebit u)" and "5 \<le> length (da u)" and "5 \<le> length (capex u)"
    and "5 \<le> length (changes_in_nwc u)"
  shows "calculate_dcf (u\<lparr>ebit := take 5 (ebit u) @ es, da := take 5 (da u) @ ds,
                          capex := take 5 (capex u) @ cs,
                          changes_in_nwc := take 5 (changes_in_nwc u) @ ns\<rparr>) = calculate_dcf u \<and>
         (\<forall>r. calculate_dcf u = Inr r \<longrightarrow>
            terminal_value r =
              (ebit u ! 4 - ebit u ! 4 * tax_rate u + da u ! 4 + capex u ! 4 + changes_in_nwc u ! 4) *
              (1 + long_term_growth_rate u) / (wacc u - long_term_growth_rate u))"
proof
  let ?v = "u\<lparr>ebit := take 5 (ebit u) @ es, da := take 5 (da u) @ ds,
               capex := take 5 (capex u) @ cs,
               changes_in_nwc := take 5 (changes_in_nwc u) @ ns\<rparr>"
  have le: "long_enough u 5" using assms by (simp add: long_enough_def)
  have le': "long_enough ?v 5" using assms by (simp add: long_enough_def)
  have s: "singular ?v = singular u" by (simp add: singular_def)
  have o: "overflows ?v = overflows u" by (simp add: overflows_def)
  have f: "fcf_at ?v i = fcf_at u i" if "i < 5" for i
    using that assms by (simp add: fcf_at_def nth_append)
  have fs: "fcfs ?v = fcfs u" by (simp add: fcfs_def f)
  have "pv_at ?v = pv_at u" by (simp add: pv_at_def fun_eq_iff)
  with fs have ps: "pvs ?v = pvs u" by (simp add: pvs_def)
  have "result_of ?v = result_of u"
    by (simp add: result_of_def Let_def f fs ps)
  with le le' s o show "calculate_dcf ?v = calculate_dcf u"
    by (simp add: calculate_dcf_cases)
  show "\<forall>r. calculate_dcf u = Inr r \<longrightarrow>
            terminal_value r =
              (ebit u ! 4 - ebit u ! 4 * tax_rate u + da u ! 4 + capex u ! 4 + changes_in_nwc u ! 4) *
              (1 + long_term_growth_rate u) / (wacc u - long_term_growth_rate u)"
    by (simp add: calculate_dcf_Inr_iff result_of_fields fcf_at_def)
qed

theorem reads_first_five_only_witness:
  "5 \<le> length (ebit default_inputs) \<and> 5 \<le> length (da default_inputs) \<and>
   5 \<le> length (capex default_inputs) \<and> 5 \<le> length (changes_in_nwc default_inputs) \<and>
   calculate_dcf (default_inputs\<lparr>ebit := [270, 0, 0, 0, 0, 99], da := [20, 0, 0, 0, 0, 7, 8],
       capex := [- 30, 0, 0, 0, 0, - 1], changes_in_nwc := [- 28 / 10, 0, 0, 0, 0, 13]\<rparr>)
     = Inr default_results"
proof -
  have h: "5 \<le> length (ebit default_inputs)" "5 \<le> length (da default_inputs)"
    "5 \<le> length (capex default_inputs)" "5 \<le> length (changes_in_nwc default_inputs)"
    by (simp_all add: default_inputs_def)
  from reads_first_five_only [OF h, where es = "[99]" and ds = "[7, 8]" and cs = "[- 1]"
      and ns = "[13]"]
  have "calculate_dcf (default_inputs\<lparr>ebit := take 5 (ebit default_inputs) @ [99],
      da := take 5 (da default_inputs) @ [7, 8], capex := take 5 (capex default_inputs) @ [- 1],
      changes_in_nwc := take 5 (changes_in_nwc default_inputs) @ [13]\<rparr>) =
    calculate_dcf default_inputs"
    by blast
  with calculate_dcf_default h show ?thesis by (simp add: default_inputs_def)
qed

section \<open>The worksheet and the report, evaluated\<close>

text \<open>The cells named by \<open>percentage_cells\<close>, as (row, column).\<close>

lemma coordinate_percentage_cells: "map coordinate percentage_cells = [(5, 2), (6, 2), (7, 2)]"
  by (simp add: percentage_cells_def coordinate_def)

lemma currency_not_percentage: "currency_format \<noteq> percentage_format"
  by (simp add: currency_format_def percentage_format_def)

lemma discount_factors_default:
  "discount_factors default_inputs [0..<5] =
     Inr [25 / 27, 625 / 729, 15625 / 19683, 390625 / 531441, 9765625 / 14348907]"
  by (simp add: range_5 default_inputs_def truediv_def and_then_def power_divide pow_py_small)

text \<open>The definitions that evaluate a sheet.\<close>

lemmas sheet_eval = and_then_def apply_formatting_def percentage_cells_def coordinate_def
  format_ref_def format_range_def ws_max_row_def ws_append_def new_worksheet_def new_cell_def
  set_format_if_number_def is_number_def cell_at_def

text \<open>Neither the appended rows nor the formatting touch the charts of a sheet.\<close>

lemma charts_format_ref: "charts (format_ref fmt ref ws) = charts ws"
  by (simp add: format_ref_def split: prod.splits)

lemma charts_fold_format_ref: "charts (fold (format_ref fmt) refs ws) = charts ws"
  by (induction refs arbitrary: ws) (simp_all add: charts_format_ref)

lemma charts_apply_formatting: "charts (apply_formatting ws) = charts ws"
  by (simp add: apply_formatting_def charts_fold_format_ref format_range_def)

lemma charts_foldl_append: "charts (foldl ws_append ws rows) = charts ws"
  by (induction rows arbitrary: ws) (simp_all add: ws_append_def)

lemma generate_spreadsheet_Inr:
  assumes "generate_spreadsheet u r company_name = Inr ws"
  shows "\<exists>rows. ws = apply_formatting (foldl ws_append (new_worksheet\<lparr>title := ''DCF Model''\<rparr>) rows)"
proof (cases "discount_factors u [0..<5]")
  case (Inl e)
  with assms show ?thesis
    unfolding generate_spreadsheet_def and_then_def by (simp only: sum.case sum.distinct)
next
  case (Inr dfs)
  with assms show ?thesis
    unfolding generate_spreadsheet_def and_then_def by (simp only: sum.case sum.inject) blast
qed

lemma generate_spreadsheet_no_chart:
  assumes "generate_spreadsheet u r company_name = Inr ws"
  shows "charts ws = []"
proof -
  from generate_spreadsheet_Inr [OF assms] obtain rows
    where "ws = apply_formatting (foldl ws_append (new_worksheet\<lparr>title := ''DCF Model''\<rparr>) rows)" ..
  then show ?thesis
    by (simp only: charts_apply_formatting charts_foldl_append) (simp add: new_worksheet_def)
qed

text \<open>On every input the cells \<open>C8\<close>, \<open>C9\<close> and \<open>C10\<close> hold the three rates as
  numbers, in the currency format.\<close>

lemma rate_cells_general:
  assumes "generate_spreadsheet u r company_name = Inr ws"
  shows "cell_at ws 8 3 = \<lparr>cell_value = PyFloat (tax_rate u), number_format = currency_format\<rparr>"
    and "cell_at ws 9 3 = \<lparr>cell_value = PyFloat (long_term_growth_rate u), number_format = currency_format\<rparr>"
    and "cell_at ws 10 3 = \<lparr>cell_value = PyFloat (wacc u), number_format = currency_format\<rparr>"
proof -
  from assms obtain dfs where d: "discount_factors u [0..<5] = Inr dfs"
    by (auto simp add: generate_spreadsheet_def and_then_def split: sum.splits)
  from assms show "cell_at ws 8 3 = \<lparr>cell_value = PyFloat (tax_rate u), number_format = currency_format\<rparr>"
    unfolding generate_spreadsheet_def d
    by (auto simp add: sheet_eval)
  from assms show "cell_at ws 9 3 = \<lparr>cell_value = PyFloat (long_term_growth_rate u), number_format = currency_format\<rparr>"
    unfolding generate_spreadsheet_def d
    by (auto simp add: sheet_eval)
  from assms show "cell_at ws 10 3 = \<lparr>cell_value = PyFloat (wacc u), number_format = currency_format\<rparr>"
    unfolding generate_spreadsheet_def d
    by (auto simp add: sheet_eval)
qed

text \<open>What \<open>format_range\<close> does to the cell at a given row and column.\<close>

lemma length_format_range: "length (sheet_rows (format_range fmt lo hi m ws)) = length (sheet_rows ws)"
  by (simp add: format_range_def)

lemma row_format_range:
  assumes "i < length (sheet_rows ws)"
  shows "sheet_rows (format_range fmt lo hi m ws) ! i =
           (if lo \<le> Suc i \<and> Suc i \<le> hi
            then map (\<lambda>(c, x). if c \<le> m then set_format_if_number fmt x else x)
                   (enumerate 1 (sheet_rows ws ! i))
            else sheet_rows ws ! i)"
  using assms by (simp add: format_range_def nth_enumerate_eq)

lemma set_format_new_cell: "set_format_if_number fmt (new_cell PyNone) = new_cell PyNone"
  by (simp add: set_format_if_number_def new_cell_def is_number_def)

lemma cell_at_Suc:
  "cell_at ws (Suc i) (Suc j) =
     (if i < length (sheet_rows ws) \<and> j < length (sheet_rows ws ! i) then sheet_rows ws ! i ! j
      else new_cell PyNone)"
  by (auto simp add: cell_at_def)

lemma cell_at_0: "cell_at ws 0 c = new_cell PyNone" "cell_at ws r 0 = new_cell PyNone"
  by (simp_all add: cell_at_def)

lemma cell_at_format_range:
  "cell_at (format_range fmt lo hi m ws) r c =
     (if lo \<le> r \<and> r \<le> hi \<and> c \<le> m then set_format_if_number fmt (cell_at ws r c)
      else cell_at ws r c)"
proof (cases r)
  case 0
  then show ?thesis by (simp add: cell_at_0 set_format_new_cell)
next
  case (Suc i)
  note r = this
  show ?thesis
  proof (cases c)
    case 0
    then show ?thesis by (simp add: cell_at_0 set_format_new_cell)
  next
    case (Suc j)
    show ?thesis
    proof (cases "i < length (sheet_rows ws)")
      case False
      then show ?thesis unfolding r Suc
        by (simp add: cell_at_Suc length_format_range set_format_new_cell)
    next
      case True
      then show ?thesis unfolding r Suc
        by (simp add: cell_at_Suc length_format_range row_format_range nth_enumerate_eq
            set_format_new_cell)
    qed
  qed
qed

text \<open>The rows of a sheet built by appending, and its last used row.\<close>

lemma sheet_rows_foldl_append:
  "sheet_rows (foldl ws_append ws rows) = sheet_rows ws @ map (map new_cell) rows"
  by (induction rows arbitrary: ws) (simp_all add: ws_append_def)

lemma last_used_row_rev:
  "rows \<noteq> [] \<Longrightarrow> last rows \<noteq> [] \<Longrightarrow> last_used_row (rev rows) = length rows"
  by (cases rows rule: rev_cases) simp_all

lemma cell_value_set_format: "cell_value (set_format_if_number fmt x) = cell_value x"
  by (simp add: set_format_if_number_def)

lemma number_format_set_format:
  "is_number (cell_value x) \<Longrightarrow> number_format (set_format_if_number fmt x) = fmt"
  by (simp add: set_format_if_number_def)

text \<open>A cell reference that names a cell without a number changes nothing.\<close>

lemma format_ref_noop:
  assumes "coordinate ref = (r, c)" and "\<not> is_number (cell_value (cell_at ws r c))"
  shows "format_ref fmt ref ws = ws"
proof (cases "1 \<le> r \<and> r \<le> length (sheet_rows ws) \<and> 1 \<le> c \<and> c \<le> length (sheet_rows ws ! (r - 1))")
  case False
  then show ?thesis using assms(1) by (auto simp add: format_ref_def)
next
  case True
  with assms(2) have "\<not> is_number (cell_value (sheet_rows ws ! (r - 1) ! (c - 1)))"
    by (simp add: cell_at_def)
  then have "set_format_if_number fmt (sheet_rows ws ! (r - 1) ! (c - 1)) = sheet_rows ws ! (r - 1) ! (c - 1)"
    by (simp add: set_format_if_number_def)
  then show ?thesis using assms(1) by (simp add: format_ref_def)
qed

text \<open>
  On every input the sheet has 37 rows, and the cells \<open>B5\<close>, \<open>B6\<close> and \<open>B7\<close> hold no
  number, so that the loop over \<open>percentage_cells\<close> changes nothing: the sheet returned
  is the appended rows with the currency format on the numbers of rows 5 to 37.
\<close>

lemma generate_spreadsheet_rows:
  assumes "generate_spreadsheet u r company_name = Inr ws"
  shows "\<exists>rows. ws = apply_formatting (foldl ws_append (new_worksheet\<lparr>title := ''DCF Model''\<rparr>) rows) \<and>
           length rows = 37 \<and> rows ! 36 \<noteq> [] \<and>
           rows ! 4 ! 1 = PyStr ''Period 0'' \<and> 2 \<le> length (rows ! 4) \<and> rows ! 5 = [] \<and>
           length (rows ! 6) = 1"
proof (cases "discount_factors u [0..<5]")
  case (Inl e)
  with assms show ?thesis
    unfolding generate_spreadsheet_def and_then_def by (simp only: sum.case sum.distinct)
next
  case (Inr dfs)
  with assms show ?thesis
    unfolding generate_spreadsheet_def and_then_def
    apply (simp only: sum.case sum.inject)
    apply (rule exI, rule conjI, erule sym)
    apply simp
    done
qed

lemma generate_spreadsheet_formatted:
  assumes "generate_spreadsheet u r company_name = Inr ws"
  shows "\<exists>base rows. ws = format_range currency_format 5 37 12 base \<and>
           sheet_rows base = map (map new_cell) rows \<and> length rows = 37"
proof -
  from generate_spreadsheet_rows [OF assms] obtain rows
    where ws: "ws = apply_formatting (foldl ws_append (new_worksheet\<lparr>title := ''DCF Model''\<rparr>) rows)"
      and len: "length rows = 37" and last: "rows ! 36 \<noteq> []"
      and b5: "rows ! 4 ! 1 = PyStr ''Period 0''" "2 \<le> length (rows ! 4)"
      and b6: "rows ! 5 = []" and b7: "length (rows ! 6) = 1"
    by blast
  define base where "base = foldl ws_append (new_worksheet\<lparr>title := ''DCF Model''\<rparr>) rows"
  have sr: "sheet_rows base = map (map new_cell) rows"
    by (simp add: base_def sheet_rows_foldl_append new_worksheet_def)
  from len have ne: "rows \<noteq> []" by auto
  with len last have "last rows \<noteq> []" by (simp add: last_conv_nth)
  with ne have "last_used_row (rev (map (map new_cell) rows)) = length rows"
    using last_used_row_rev [of "map (map new_cell) rows"] by (simp add: last_map)
  then have mr: "ws_max_row base = 37" by (simp add: ws_max_row_def sr len)
  define F where "F = format_range currency_format 5 37 12 base"
  have v: "cell_value (cell_at F i j) = cell_value (cell_at base i j)" for i j
    by (simp add: F_def cell_at_format_range cell_value_set_format)
  have "cell_at base 5 2 = new_cell (PyStr ''Period 0'')"
    using len b5 by (simp add: cell_at_def sr)
  then have n5: "\<not> is_number (cell_value (cell_at F 5 2))"
    by (simp add: v new_cell_def is_number_def)
  have "cell_at base 6 2 = new_cell PyNone"
    using len b6 by (simp add: cell_at_def sr)
  then have n6: "\<not> is_number (cell_value (cell_at F 6 2))"
    by (simp add: v new_cell_def is_number_def)
  have "cell_at base 7 2 = new_cell PyNone"
    using len b7 by (simp add: cell_at_def sr)
  then have n7: "\<not> is_number (cell_value (cell_at F 7 2))"
    by (simp add: v new_cell_def is_number_def)
  have c: "coordinate ''B5'' = (5, 2)" "coordinate ''B6'' = (6, 2)" "coordinate ''B7'' = (7, 2)"
    by (simp_all add: coordinate_def)
  have "ws = fold (format_ref percentage_format) percentage_cells F"
    by (simp add: ws apply_formatting_def base_def [symmetric] mr F_def)
  then have "ws = F"
    by (simp add: percentage_cells_def format_ref_noop [OF c(1) n5] format_ref_noop [OF c(2) n6]
        format_ref_noop [OF c(3) n7])
  with sr len show ?thesis unfolding F_def by blast
qed

lemma cell_at_new_cells:
  assumes "sheet_rows base = map (map new_cell) rows"
  shows "\<exists>v. cell_at base i j = new_cell v"
  using assms by (auto simp add: cell_at_def)

text \<open>On every input, every number from row 5 on and up to column 12 carries the currency
  format, and no cell of the sheet carries the percentage format.\<close>

lemma numbers_get_currency:
  assumes "generate_spreadsheet u r company_name = Inr ws"
    and "5 \<le> row" and "col \<le> 12" and "is_number (cell_value (cell_at ws row col))"
  shows "number_format (cell_at ws row col) = currency_format"
proof -
  from generate_spreadsheet_formatted [OF assms(1)] obtain base rows
    where ws: "ws = format_range currency_format 5 37 12 base"
      and sr: "sheet_rows base = map (map new_cell) rows" and len: "length rows = 37"
    by blast
  have num: "is_number (cell_value (cell_at base row col))"
    using assms(4) by (simp add: ws cell_at_format_range cell_value_set_format split: if_splits)
  have "row \<le> 37"
  proof (rule ccontr)
    assume "\<not> row \<le> 37"
    then have "cell_at base row col = new_cell PyNone"
      by (simp add: cell_at_def sr len)
    with num show False by (simp add: new_cell_def is_number_def)
  qed
  with assms(2,3) have "cell_at ws row col = set_format_if_number currency_format (cell_at base row col)"
    by (simp add: ws cell_at_format_range)
  with num show ?thesis by (simp add: number_format_set_format)
qed

lemma no_percentage_cell:
  assumes "generate_spreadsheet u r company_name = Inr ws"
  shows "number_format (cell_at ws row col) \<noteq> percentage_format"
proof -
  from generate_spreadsheet_formatted [OF assms] obtain base rows
    where ws: "ws = format_range currency_format 5 37 12 base"
      and sr: "sheet_rows base = map (map new_cell) rows"
    by blast
  from cell_at_new_cells [OF sr] obtain v where "cell_at base row col = new_cell v" by blast
  then have "number_format (cell_at ws row col) = currency_format \<or>
    number_format (cell_at ws row col) = ''General''"
    by (simp add: ws cell_at_format_range set_format_if_number_def new_cell_def)
  then show ?thesis
    by (auto simp add: currency_format_def percentage_format_def)
qed

text \<open>Evaluation of \<open>digits\<close> on numerals.\<close>

declare digits.simps [simp del]

lemma digits_numeral:
  "digits (numeral k) =
     (if numeral k < (10::nat) then [digit_char (numeral k)]
      else digits (numeral k div 10) @ [digit_char (numeral k mod 10)])"
  by (rule digits.simps)

lemma digits_0: "digits 0 = ''0''"
  by (simp add: digits.simps digit_char_def)

lemma digits_1: "digits (Suc 0) = ''1''"
  by (simp add: digits.simps digit_char_def)

lemmas format_eval = format_percent_def format_f_def fl_eval digit_char_def thousands_def
  digits_numeral digits_0 digits_1

lemma digit_char_in_digits: "d < 10 \<Longrightarrow> digit_char d \<in> set ''0123456789''"
  unfolding digit_char_def by (rule nth_mem) simp

text \<open>A percentage with precision 1 ends with a point, one decimal digit and the
  percent sign, whatever the value.\<close>

lemma format_percent_one_decimal:
  "\<exists>w d. format_percent 1 x = w @ [CHR ''.'', d, CHR ''%''] \<and> d \<in> set ''0123456789''"
proof -
  define n where "n = round_half_even (\<bar>fl (x * 100)\<bar> * 10)"
  have f: "digits (k mod 10) = [digit_char (k mod 10)]" for k
    by (simp add: digits.simps)
  have "format_percent 1 x =
      ((if fl (x * 100) < 0 then ''-'' else '''') @ digits (n div 10)) @
      [CHR ''.'', digit_char (n mod 10), CHR ''%'']"
    by (simp add: format_percent_def format_f_def Let_def n_def f)
  moreover have "digit_char (n mod 10) \<in> set ''0123456789''"
    by (rule digit_char_in_digits) simp
  ultimately show ?thesis by blast
qed

text \<open>The strings of the report on the default inputs.\<close>

lemma format_default_inputs:
  "format_percent 1 (21 / 100) = ''21.0%''"
  "format_percent 1 (8 / 100) = ''8.0%''"
  "format_percent 1 (3 / 100) = ''3.0%''"
  "format_f False 2 3 = ''3.00''"
  "format_f True 0 1000 = ''1,000''"
  by (simp_all add: format_eval)

lemma format_default_premium: "format_percent 1 (- 861341 / 810000) = ''-106.3%''"
  by (simp add: format_eval)

lemma default_inputs_fields:
  "tax_rate default_inputs = 21 / 100" "wacc default_inputs = 8 / 100"
  "long_term_growth_rate default_inputs = 3 / 100" "share_price default_inputs = 3"
  "shares_outstanding default_inputs = 1000"
  by (simp_all add: default_inputs_def)

lemma default_results_premium:
  "intrinsic_value_premium_percentage default_results = - 861341 / 810000"
  by (simp add: default_results_def)

lemma assumptions_data_generate_pdf:
  "assumptions_data (generate_pdf u r company_name) =
     [[''Key Assumptions'', ''Value''],
      [''Tax Rate'', format_percent 1 (tax_rate u)],
      [''WACC'', format_percent 1 (wacc u)],
      [''Long Term Growth Rate'', format_percent 1 (long_term_growth_rate u)],
      [''Share Price'', ''$'' @ format_f False 2 (share_price u)],
      [''Shares Outstanding'', format_f True 0 (shares_outstanding u)]]"
  unfolding generate_pdf_def by (simp only: pdf_report.simps)

lemma premium_row_generate_pdf:
  "results_data (generate_pdf u r company_name) ! 6 =
     [''Premium Percentage'', format_percent 1 (intrinsic_value_premium_percentage r)]"
  unfolding generate_pdf_def by (simp only: pdf_report.simps nth_Cons_numeral nth_Cons_0 nth_Cons_Suc
      numeral_eq_Suc pred_numeral_simps BitM.simps)

text \<open>The product with 100 is rounded to a float before the digits are taken: the
  float nearest to \<open>0.15\<close> lies below it, so \<open>0.0015\<close> is shown as \<open>0.1%\<close>.\<close>

lemma format_percent_rounds_product: "format_percent 1 (15 / 10000) = ''0.1%''"
  by (simp add: format_eval)

section \<open>Claims about the spreadsheet and the report\<close>

text \<open>
  Claim C6, on the default inputs. Every numeric cell of the sheet, the monetary cells
  among them, carries the currency format and every other cell the format General.
  The cells that hold the tax rate, the growth rate and WACC are \<open>C8\<close>, \<open>C9\<close> and
  \<open>C10\<close>; they hold the raw numbers in the currency format, not the percentage
  format. The cells that \<open>apply_formatting\<close> names for the percentage format are
  \<open>B5\<close>, \<open>B6\<close> and \<open>B7\<close>: a label and two empty cells, which it leaves as they are.
\<close>

theorem rate_cells_not_percentage:
  "map_sum id (\<lambda>ws. [cell_at ws 8 3, cell_at ws 9 3, cell_at ws 10 3])
     (generate_spreadsheet default_inputs default_results default_company_name) =
   Inr [\<lparr>cell_value = PyFloat (21 / 100), number_format = currency_format\<rparr>,
        \<lparr>cell_value = PyFloat (3 / 100), number_format = currency_format\<rparr>,
        \<lparr>cell_value = PyFloat (8 / 100), number_format = currency_format\<rparr>] \<and>
   currency_format \<noteq> percentage_format \<and>
   map coordinate percentage_cells = [(5, 2), (6, 2), (7, 2)] \<and>
   map_sum id (\<lambda>ws. [cell_at ws 5 2, cell_at ws 6 2, cell_at ws 7 2])
     (generate_spreadsheet default_inputs default_results default_company_name) =
   Inr [new_cell (PyStr ''Period 0''), new_cell PyNone, new_cell PyNone] \<and>
   map_sum id (\<lambda>ws. list_all (list_all (\<lambda>c. number_format c =
       (if is_number (cell_value c) then currency_format else ''General''))) (sheet_rows ws))
     (generate_spreadsheet default_inputs default_results default_company_name) = Inr True"
  unfolding generate_spreadsheet_def discount_factors_default
  by (simp add: sheet_eval default_inputs_def default_results_def default_company_name_def
      currency_not_percentage)

text \<open>
  Claim C7, on the default inputs. The sheet \<open>generate_spreadsheet\<close> returns has no
  chart, since \<open>add_charts\<close> is never called. The free cash flows stand in row 20,
  columns 4 to 8, while the chart \<open>add_charts\<close> would add reads row 13, columns 6 to
  10, an empty row, and takes its categories from row 12, columns 5 to 10.
\<close>

theorem spreadsheet_has_no_chart:
  "map_sum id charts (generate_spreadsheet default_inputs default_results default_company_name) = Inr [] \<and>
   map_sum id (\<lambda>ws. map cell_value (sheet_rows ws ! 19))
     (generate_spreadsheet default_inputs default_results default_company_name) =
   Inr [PyStr '''', PyStr ''Free cash flow'', PyStr '''', PyFloat (401 / 2), PyFloat 0, PyFloat 0,
        PyFloat 0, PyFloat 0] \<and>
   map_sum id (\<lambda>ws. map cell_value (sheet_rows ws ! 12))
     (generate_spreadsheet default_inputs default_results default_company_name) = Inr [] \<and>
   map chart_data (charts (add_charts new_worksheet default_results)) =
     [\<lparr>min_col = 6, min_row = 13, max_col = 10, max_row = 13\<rparr>] \<and>
   map categories (charts (add_charts new_worksheet default_results)) =
     [\<lparr>min_col = 5, min_row = 12, max_col = 10, max_row = 12\<rparr>]"
  unfolding generate_spreadsheet_def discount_factors_default
  by (simp add: sheet_eval default_inputs_def default_results_def default_company_name_def
      add_charts_def)

text \<open>
  Claim C8, on the default inputs. The report renders the percentages as text with one
  decimal, \<open>21.0%\<close> for the tax rate \<open>0.21\<close>; the cell of the tax rate in the sheet
  holds the number \<open>0.21\<close> itself, but in the currency format and not in the
  percentage format.
\<close>

theorem tax_rate_text_and_cell:
  "assumptions_data (generate_pdf default_inputs default_results default_company_name) =
     [[''Key Assumptions'', ''Value''],
      [''Tax Rate'', ''21.0%''],
      [''WACC'', ''8.0%''],
      [''Long Term Growth Rate'', ''3.0%''],
      [''Share Price'', ''$3.00''],
      [''Shares Outstanding'', ''1,000'']] \<and>
   results_data (generate_pdf default_inputs default_results default_company_name) ! 6 =
     [''Premium Percentage'', ''-106.3%''] \<and>
   map_sum id (\<lambda>ws. cell_at ws 8 3)
     (generate_spreadsheet default_inputs default_results default_company_name) =
   Inr \<lparr>cell_value = PyFloat (21 / 100), number_format = currency_format\<rparr> \<and>
   percentage_format \<noteq> currency_format"
proof -
  have "assumptions_data (generate_pdf default_inputs default_results default_company_name) =
     [[''Key Assumptions'', ''Value''],
      [''Tax Rate'', ''21.0%''],
      [''WACC'', ''8.0%''],
      [''Long Term Growth Rate'', ''3.0%''],
      [''Share Price'', ''$3.00''],
      [''Shares Outstanding'', ''1,000'']]"
    by (simp only: assumptions_data_generate_pdf default_inputs_fields format_default_inputs
        append.simps)
  moreover have "results_data (generate_pdf default_inputs default_results default_company_name) ! 6 =
     [''Premium Percentage'', ''-106.3%'']"
    by (simp only: premium_row_generate_pdf default_results_premium format_default_premium)
  moreover have "map_sum id (\<lambda>ws. cell_at ws 8 3)
     (generate_spreadsheet default_inputs default_results default_company_name) =
   Inr \<lparr>cell_value = PyFloat (21 / 100), number_format = currency_format\<rparr>"
    unfolding generate_spreadsheet_def discount_factors_default
    by (simp add: sheet_eval default_inputs_def default_results_def default_company_name_def)
  moreover have "percentage_format \<noteq> currency_format"
    by (simp add: currency_format_def percentage_format_def)
  ultimately show ?thesis by simp
qed

end
